theory Spec2Isabelle
  imports Main
begin

section \<open>Strings\<close>

text \<open>
  A Python \<open>str\<close> is a sequence of Unicode code points, so a string is a list of
  naturals below \<open>0x110000\<close>. Surrogate code points (\<open>0xD800\<close> to \<open>0xDFFF\<close>) are
  legal elements of a Python string. ASCII text of the sources is written with \<open>ascii\<close>.
\<close>

type_synonym pystr = "nat list"

definition ascii :: "string \<Rightarrow> pystr" where
  "ascii s = map of_char s"

definition valid_str :: "pystr \<Rightarrow> bool" where
  "valid_str s \<longleftrightarrow> (\<forall>c \<in> set s. c < 0x110000)"

definition is_high_surrogate :: "nat \<Rightarrow> bool" where
  "is_high_surrogate c \<longleftrightarrow> 0xD800 \<le> c \<and> c \<le> 0xDBFF"

definition is_low_surrogate :: "nat \<Rightarrow> bool" where
  "is_low_surrogate c \<longleftrightarrow> 0xDC00 \<le> c \<and> c \<le> 0xDFFF"

text \<open>No high surrogate is directly followed by a low surrogate.\<close>

fun no_surrogate_pair :: "pystr \<Rightarrow> bool" where
  "no_surrogate_pair (a # b # cs) =
     (\<not> (is_high_surrogate a \<and> is_low_surrogate b) \<and> no_surrogate_pair (b # cs))"
| "no_surrogate_pair _ = True"

text \<open>\<open>str(x)\<close> for an optional string, as an f-string renders it.\<close>

definition py_str :: "pystr option \<Rightarrow> pystr" where
  "py_str v = (case v of None \<Rightarrow> ascii ''None'' | Some s \<Rightarrow> s)"

text \<open>Truthiness of an optional string: \<open>None\<close> and \<open>""\<close> are false.\<close>

definition truthy :: "pystr option \<Rightarrow> bool" where
  "truthy v \<longleftrightarrow> (case v of None \<Rightarrow> False | Some s \<Rightarrow> s \<noteq> [])"

text \<open>
  \<open>str.strip()\<close> without argument removes leading and trailing characters for which
  \<open>str.isspace\<close> holds.
\<close>

definition py_isspace :: "nat \<Rightarrow> bool" where
  "py_isspace c \<longleftrightarrow>
     (9 \<le> c \<and> c \<le> 13) \<or> (0x1C \<le> c \<and> c \<le> 0x20) \<or> c = 0x85 \<or> c = 0xA0 \<or> c = 0x1680
     \<or> (0x2000 \<le> c \<and> c \<le> 0x200A) \<or> c = 0x2028 \<or> c = 0x2029 \<or> c = 0x202F
     \<or> c = 0x205F \<or> c = 0x3000"

definition py_strip :: "pystr \<Rightarrow> pystr" where
  "py_strip s = rev (dropWhile py_isspace (rev (dropWhile py_isspace s)))"

section \<open>The \<open>json\<close> module on strings\<close>

text \<open>
  \<open>json.dumps(s)\<close> for a string \<open>s\<close> with the default \<open>ensure_ascii=True\<close>: the
  characters \<open>"\<close> and \<open>\\<close> and the control characters with a short name get a
  two-character escape, printable ASCII is kept, every other code point becomes
  \<open>\uXXXX\<close> (lower-case hexadecimal), a code point above \<open>0xFFFF\<close> a pair of them.
\<close>

definition hexdigit :: "nat \<Rightarrow> nat" where
  "hexdigit d = (if d < 10 then 48 + d else 87 + d)"

definition hex4 :: "nat \<Rightarrow> pystr" where
  "hex4 n = [hexdigit (n div 4096 mod 16), hexdigit (n div 256 mod 16),
             hexdigit (n div 16 mod 16), hexdigit (n mod 16)]"

definition u_escape :: "nat \<Rightarrow> pystr" where
  "u_escape n = [92, 117] @ hex4 n"

definition escape_char :: "nat \<Rightarrow> pystr" where
  "escape_char c =
     (if c = 34 then [92, 34]
      else if c = 92 then [92, 92]
      else if c = 10 then [92, 110]
      else if c = 13 then [92, 114]
      else if c = 9 then [92, 116]
      else if c = 8 then [92, 98]
      else if c = 12 then [92, 102]
      else if 32 \<le> c \<and> c \<le> 126 then [c]
      else if c < 0x10000 then u_escape c
      else (let n = c - 0x10000
            in u_escape (0xD800 + n div 1024 mod 1024) @ u_escape (0xDC00 + n mod 1024)))"

definition json_dumps :: "pystr \<Rightarrow> pystr" where
  "json_dumps s = [34] @ concat (map escape_char s) @ [34]"

text \<open>\<open>json.dumps\<close> of a list of strings: the items joined by \<open>", "\<close> in brackets.\<close>

fun join_items :: "pystr list \<Rightarrow> pystr" where
  "join_items [] = []"
| "join_items [x] = x"
| "join_items (x # y # ys) = x @ [44, 32] @ join_items (y # ys)"

definition json_dumps_list :: "pystr list \<Rightarrow> pystr" where
  "json_dumps_list xs = [91] @ join_items (map json_dumps xs) @ [93]"

text \<open>
  \<open>json.loads\<close> on a document whose value is a string: optional whitespace, the string,
  optional whitespace. \<open>None\<close> stands for a \<open>JSONDecodeError\<close> or a value that is no
  string. The string scanner is the strict one: a raw control character, an unknown
  escape and a malformed \<open>\uXXXX\<close> are errors, and an escaped high surrogate directly
  followed by an escaped low surrogate is joined into one code point.
\<close>

definition unhex :: "nat \<Rightarrow> nat option" where
  "unhex c =
     (if 48 \<le> c \<and> c \<le> 57 then Some (c - 48)
      else if 97 \<le> c \<and> c \<le> 102 then Some (c - 87)
      else if 65 \<le> c \<and> c \<le> 70 then Some (c - 55)
      else None)"

fun decode_uXXXX :: "pystr \<Rightarrow> (nat \<times> pystr) option" where
  "decode_uXXXX (a # b # c # d # rest) =
     (case (unhex a, unhex b, unhex c, unhex d) of
        (Some x, Some y, Some z, Some w) \<Rightarrow> Some (x * 4096 + y * 256 + z * 16 + w, rest)
      | _ \<Rightarrow> None)"
| "decode_uXXXX _ = None"

definition backslash :: "nat \<Rightarrow> nat option" where
  "backslash e =
     (if e = 34 then Some 34
      else if e = 92 then Some 92
      else if e = 47 then Some 47
      else if e = 98 then Some 8
      else if e = 102 then Some 12
      else if e = 110 then Some 10
      else if e = 114 then Some 13
      else if e = 116 then Some 9
      else None)"

text \<open>What follows a backslash inside a JSON string: the character it denotes and the rest.\<close>

fun scan_escape :: "pystr \<Rightarrow> (nat \<times> pystr) option" where
  "scan_escape [] = None"
| "scan_escape (e # es) =
     (if e = 117 then
        (case decode_uXXXX es of
           None \<Rightarrow> None
         | Some (uni, r) \<Rightarrow>
             if is_high_surrogate uni then
               (case r of
                  b # u # r2 \<Rightarrow>
                    if b = 92 \<and> u = 117 then
                      (case decode_uXXXX r2 of
                         None \<Rightarrow> None
                       | Some (uni2, r3) \<Rightarrow>
                           if is_low_surrogate uni2
                           then Some (0x10000 + ((uni - 0xD800) * 1024 + (uni2 - 0xDC00)), r3)
                           else Some (uni, r))
                    else Some (uni, r)
                | _ \<Rightarrow> Some (uni, r))
             else Some (uni, r))
      else (case backslash e of None \<Rightarrow> None | Some ch \<Rightarrow> Some (ch, es)))"

lemma decode_uXXXX_length:
  "decode_uXXXX xs = Some (n, r) \<Longrightarrow> length xs = length r + 4"
  by (induction xs rule: decode_uXXXX.induct) (auto split: option.splits)

lemma scan_escape_length:
  "scan_escape xs = Some (ch, r) \<Longrightarrow> length r < length xs"
  by (cases xs)
     (auto split: if_splits option.splits list.splits dest!: decode_uXXXX_length)

text \<open>The text after the opening quote: the decoded string and what follows the closing quote.\<close>

function scanstring :: "pystr \<Rightarrow> (pystr \<times> pystr) option" where
  "scanstring [] = None"
| "scanstring (c # cs) =
     (if c = 34 then Some ([], cs)
      else if c = 92 then
        (case scan_escape cs of
           None \<Rightarrow> None
         | Some (ch, r) \<Rightarrow> map_option (\<lambda>(v, rest). (ch # v, rest)) (scanstring r))
      else if c < 32 then None
      else map_option (\<lambda>(v, rest). (c # v, rest)) (scanstring cs))"
  by pat_completeness auto
termination
  by (relation "measure length") (auto dest: scan_escape_length)

definition json_ws :: "nat \<Rightarrow> bool" where
  "json_ws c \<longleftrightarrow> c = 32 \<or> c = 9 \<or> c = 10 \<or> c = 13"

definition json_loads :: "pystr \<Rightarrow> pystr option" where
  "json_loads s =
     (case s of
        [] \<Rightarrow> None
      | c0 # _ \<Rightarrow>
          if c0 = 0xFEFF then None
          else (case dropWhile json_ws s of
                  [] \<Rightarrow> None
                | c # cs \<Rightarrow>
                    if c = 34 then
                      (case scanstring cs of
                         None \<Rightarrow> None
                       | Some (v, rest) \<Rightarrow>
                           if dropWhile json_ws rest = [] then Some v else None)
                    else None))"

section \<open>Python string literals\<close>

text \<open>
  The lexer of the generated program reads the interpolated text as a string literal in
  double quotes. \<open>None\<close> stands for a syntax error or for a form left out of the model:
  a triple-quoted literal, the named escape \<open>\N{...}\<close> and a backslash before a
  carriage return or NUL. An unknown escape keeps its backslash. A raw newline, carriage
  return or NUL inside the literal is an error.
\<close>

fun decode_hex :: "nat \<Rightarrow> pystr \<Rightarrow> (nat \<times> pystr) option" where
  "decode_hex 0 xs = Some (0, xs)"
| "decode_hex (Suc k) [] = None"
| "decode_hex (Suc k) (x # xs) =
     (case unhex x of
        None \<Rightarrow> None
      | Some d \<Rightarrow>
          (case decode_hex k xs of None \<Rightarrow> None | Some (v, r) \<Rightarrow> Some (d * 16 ^ k + v, r)))"

fun octal_tail :: "nat \<Rightarrow> nat \<Rightarrow> pystr \<Rightarrow> nat \<times> pystr" where
  "octal_tail 0 acc xs = (acc, xs)"
| "octal_tail (Suc k) acc [] = (acc, [])"
| "octal_tail (Suc k) acc (x # xs) =
     (if 48 \<le> x \<and> x \<le> 55 then octal_tail k (acc * 8 + (x - 48)) xs else (acc, x # xs))"

fun py_escape :: "pystr \<Rightarrow> (pystr \<times> pystr) option" where
  "py_escape [] = None"
| "py_escape (e # es) =
     (if e = 10 then Some ([], es)
      else if e = 92 then Some ([92], es)
      else if e = 39 then Some ([39], es)
      else if e = 34 then Some ([34], es)
      else if e = 97 then Some ([7], es)
      else if e = 98 then Some ([8], es)
      else if e = 102 then Some ([12], es)
      else if e = 110 then Some ([10], es)
      else if e = 114 then Some ([13], es)
      else if e = 116 then Some ([9], es)
      else if e = 118 then Some ([11], es)
      else if 48 \<le> e \<and> e \<le> 55 then
        (case octal_tail 2 (e - 48) es of (v, r) \<Rightarrow> Some ([v], r))
      else if e = 120 then
        (case decode_hex 2 es of None \<Rightarrow> None | Some (v, r) \<Rightarrow> Some ([v], r))
      else if e = 117 then
        (case decode_hex 4 es of None \<Rightarrow> None | Some (v, r) \<Rightarrow> Some ([v], r))
      else if e = 85 then
        (case decode_hex 8 es of
           None \<Rightarrow> None
         | Some (v, r) \<Rightarrow> if v < 0x110000 then Some ([v], r) else None)
      else if e = 78 \<or> e = 13 \<or> e = 0 then None
      else Some ([92, e], es))"

lemma decode_hex_length: "decode_hex k xs = Some (v, r) \<Longrightarrow> length r \<le> length xs"
  by (induction k xs arbitrary: v r rule: decode_hex.induct)
     (fastforce split: option.splits)+

lemma octal_tail_length: "octal_tail k acc xs = (v, r) \<Longrightarrow> length r \<le> length xs"
  by (induction k acc xs rule: octal_tail.induct) (auto split: if_splits)

lemma py_escape_length: "py_escape xs = Some (v, r) \<Longrightarrow> length r < length xs"
  by (cases xs)
     (auto split: if_splits option.splits prod.splits
           dest: decode_hex_length octal_tail_length)

function py_short_string :: "pystr \<Rightarrow> (pystr \<times> pystr) option" where
  "py_short_string [] = None"
| "py_short_string (c # cs) =
     (if c = 34 then Some ([], cs)
      else if c = 10 \<or> c = 13 \<or> c = 0 then None
      else if c = 92 then
        (case py_escape cs of
           None \<Rightarrow> None
         | Some (v, r) \<Rightarrow> map_option (\<lambda>(w, rest). (v @ w, rest)) (py_short_string r))
      else map_option (\<lambda>(w, rest). (c # w, rest)) (py_short_string cs))"
  by pat_completeness auto
termination
  by (relation "measure length") (auto dest: py_escape_length)

text \<open>A literal at the head of the text: its value and the text after it.\<close>

definition py_string_literal :: "pystr \<Rightarrow> (pystr \<times> pystr) option" where
  "py_string_literal s =
     (case s of
        [] \<Rightarrow> None
      | q # cs \<Rightarrow>
          if q \<noteq> 34 then None
          else if take 2 cs = [34, 34] then None
          else py_short_string cs)"

section \<open>The generated programs\<close>

text \<open>
  \<open>run_agent.py\<close> builds the program with an f-string: fixed text around
  \<open>json.dumps(json.dumps(prompt))\<close>.
\<close>

definition agent_code_head :: pystr where
  \<open>agent_code_head = ascii
     (''\<newline>'' @
      ''import asyncio\<newline>'' @
      ''import json\<newline>'' @
      ''from claude_agent_sdk import query\<newline>'' @
      ''\<newline>'' @
      ''async def main():\<newline>'' @
      ''    result = None\<newline>'' @
      ''    prompt = json.loads('')\<close>

definition agent_code_tail :: pystr where
  \<open>agent_code_tail = ascii
     ('')\<newline>'' @
      ''    async for msg in query(prompt=prompt):\<newline>'' @
      ''        if hasattr(msg, "result"):\<newline>'' @
      ''            result = msg.result\<newline>'' @
      ''    if result:\<newline>'' @
      ''        print(result)\<newline>'' @
      ''\<newline>'' @
      ''asyncio.run(main())\<newline>'')\<close>

definition agent_code :: "pystr \<Rightarrow> pystr" where
  "agent_code prompt = agent_code_head @ json_dumps (json_dumps prompt) @ agent_code_tail"

text \<open>
  Reading the program back: the fixed head, one string literal, the fixed tail. The
  result is the value the literal denotes, which the program hands to \<open>json.loads\<close>;
  \<open>None\<close> when the text is not of this shape.
\<close>

definition strip_prefix :: "pystr \<Rightarrow> pystr \<Rightarrow> pystr option" where
  "strip_prefix p s = (if take (length p) s = p then Some (drop (length p) s) else None)"

definition loads_argument :: "pystr \<Rightarrow> pystr option" where
  "loads_argument src =
     (case strip_prefix agent_code_head src of
        None \<Rightarrow> None
      | Some r \<Rightarrow>
          (case py_string_literal r of
             None \<Rightarrow> None
           | Some (v, rest) \<Rightarrow> if rest = agent_code_tail then Some v else None))"

text \<open>The prompt the generated program passes to \<open>query\<close>.\<close>

definition program_prompt :: "pystr \<Rightarrow> pystr option" where
  "program_prompt src =
     (case loads_argument src of None \<Rightarrow> None | Some inner \<Rightarrow> json_loads inner)"

text \<open>
  \<open>examples/run_agent.py\<close> puts its prompt between double quotes as it is; the prompt
  is a constant of \<open>main\<close>.
\<close>

definition example_prompt :: pystr where
  "example_prompt = ascii ''What is 2 + 2? Reply in exactly 5 words.''"

definition example_code_head :: pystr where
  \<open>example_code_head = ascii
     (''\<newline>'' @
      ''import asyncio\<newline>'' @
      ''from claude_agent_sdk import query\<newline>'' @
      ''\<newline>'' @
      ''async def run():\<newline>'' @
      ''    async for msg in query(prompt='')\<close>

definition example_code_tail :: pystr where
  \<open>example_code_tail = ascii
     (''):\<newline>'' @
      ''        if hasattr(msg, "result"):\<newline>'' @
      ''            print(msg.result)\<newline>'' @
      ''\<newline>'' @
      ''asyncio.run(run())\<newline>'')\<close>

definition example_agent_code :: "pystr \<Rightarrow> pystr" where
  "example_agent_code prompt = example_code_head @ [34] @ prompt @ [34] @ example_code_tail"

definition example_program_prompt :: "pystr \<Rightarrow> pystr option" where
  "example_program_prompt src =
     (case strip_prefix example_code_head src of
        None \<Rightarrow> None
      | Some r \<Rightarrow>
          (case py_string_literal r of
             None \<Rightarrow> None
           | Some (v, rest) \<Rightarrow> if rest = example_code_tail then Some v else None))"

text \<open>
  The body of the generated \<open>main\<close>: the last message with a \<open>result\<close> attribute
  decides; a result that is \<open>None\<close> or empty prints nothing. The value is the
  program's standard output.
\<close>

datatype message = Other | ResultMessage "pystr option"

fun last_result :: "pystr option \<Rightarrow> message list \<Rightarrow> pystr option" where
  "last_result result [] = result"
| "last_result result (Other # msgs) = last_result result msgs"
| "last_result result (ResultMessage r # msgs) = last_result r msgs"

definition agent_main :: "message list \<Rightarrow> pystr" where
  "agent_main msgs =
     (let result = last_result None msgs
      in if truthy result then py_str result @ [10] else [])"

section \<open>The sandbox provider and what a run does\<close>

text \<open>
  The provider's client is outside the repository. A run calls it at most once for each
  of \<open>create\<close>, \<open>files.write\<close>, \<open>commands.run\<close> and \<open>kill\<close>, so the provider is a
  record of what each call does in this run: it raises an exception (given by its
  message; an \<open>Exception\<close> subclass) or it returns. The calls a run makes, with their
  arguments, and the lines it prints are recorded in order. The sandbox handle is its
  identifier.
\<close>

datatype 'a outcome = Raises pystr | Returns 'a

record command_result =
  exit_code :: int
  stdout :: pystr
  stderr :: pystr

record remote =
  create_outcome :: "pystr outcome"
  write_outcome :: "unit outcome"
  run_outcome :: "command_result outcome"
  kill_outcome :: "unit outcome"

datatype exn =
    ValueError pystr
  | RuntimeError pystr
  | HTTPException nat pystr
  | SandboxException pystr

datatype event =
    Print pystr
  | Create "pystr option" int "(string \<times> pystr option) list"
  | FilesWrite pystr pystr pystr
  | CommandsRun pystr pystr int
  | Kill pystr

fun is_create :: "event \<Rightarrow> bool" where
  "is_create (Create _ _ _) = True"
| "is_create _ = False"

fun is_kill :: "event \<Rightarrow> bool" where
  "is_kill (Kill _) = True"
| "is_kill _ = False"

text \<open>The timeouts passed to \<open>create\<close> and to \<open>commands.run\<close>, in order of the calls.\<close>

fun create_timeouts :: "event list \<Rightarrow> int list" where
  "create_timeouts [] = []"
| "create_timeouts (Create _ t _ # evs) = t # create_timeouts evs"
| "create_timeouts (_ # evs) = create_timeouts evs"

fun run_timeouts :: "event list \<Rightarrow> int list" where
  "run_timeouts [] = []"
| "run_timeouts (CommandsRun _ _ t # evs) = t # run_timeouts evs"
| "run_timeouts (_ # evs) = run_timeouts evs"

text \<open>The program texts uploaded, in order.\<close>

fun written :: "event list \<Rightarrow> pystr list" where
  "written [] = []"
| "written (FilesWrite _ _ code # evs) = code # written evs"
| "written (_ # evs) = written evs"

text \<open>A call with the injected environment variables blanked.\<close>

fun redact :: "event \<Rightarrow> event" where
  "redact (Create template t envs) = Create template t []"
| "redact e = e"

definition agent_path :: pystr where
  "agent_path = ascii ''/home/user/agent.py''"

definition agent_command :: pystr where
  "agent_command = ascii ''python3 /home/user/agent.py''"

subsection \<open>\<open>run_agent.py\<close>\<close>

text \<open>
  The process environment maps variable names to values. The \<open>try\<close> block and the
  \<open>finally\<close> block are separate definitions; an exception raised in \<open>finally\<close>
  replaces the outcome of the \<open>try\<close> block, whether that was a value or an exception.
\<close>

definition try_block ::
  "remote \<Rightarrow> pystr \<Rightarrow> pystr \<Rightarrow> int \<Rightarrow> bool \<Rightarrow> (exn + pystr) \<times> event list" where
  "try_block rem sandbox code timeout verbose =
     (let evs0 = (if verbose then [Print (ascii ''Sandbox started. Running agent...'')] else []);
          evs1 = evs0 @ [FilesWrite sandbox agent_path code]
      in case write_outcome rem of
           Raises m \<Rightarrow> (Inl (SandboxException m), evs1)
         | Returns _ \<Rightarrow>
             (let evs2 = evs1 @ [CommandsRun sandbox agent_command timeout]
              in case run_outcome rem of
                   Raises m \<Rightarrow> (Inl (SandboxException m), evs2)
                 | Returns res \<Rightarrow>
                     if exit_code res \<noteq> 0
                     then (Inl (RuntimeError (ascii ''Agent failed: '' @ stderr res)), evs2)
                     else (Inr (py_strip (stdout res)), evs2)))"

definition finally_block ::
  "remote \<Rightarrow> pystr \<Rightarrow> bool \<Rightarrow> (exn + 'a) \<times> event list \<Rightarrow> (exn + 'a) \<times> event list" where
  "finally_block rem sandbox verbose body =
     (case body of
        (r, evs) \<Rightarrow>
          (case kill_outcome rem of
             Raises m \<Rightarrow> (Inl (SandboxException m), evs @ [Kill sandbox])
           | Returns _ \<Rightarrow>
               (r, evs @ [Kill sandbox]
                     @ (if verbose then [Print (ascii ''Sandbox terminated.'')] else []))))"

definition run_agent ::
  "(string \<rightharpoonup> pystr) \<Rightarrow> remote \<Rightarrow> pystr \<Rightarrow> int \<Rightarrow> bool \<Rightarrow> (exn + pystr) \<times> event list" where
  "run_agent env rem prompt timeout verbose =
     (let template_id = env ''E2B_TEMPLATE_ID'';
          oauth_token = env ''CLAUDE_CODE_OAUTH_TOKEN''
      in if \<not> truthy template_id
         then (Inl (ValueError (ascii ''E2B_TEMPLATE_ID not set. Run: ./setup.sh'')), [])
         else if \<not> truthy oauth_token
         then (Inl (ValueError (ascii ''CLAUDE_CODE_OAUTH_TOKEN not set. Run: ./setup.sh'')), [])
         else
           (let code = agent_code prompt;
                evs0 = (if verbose
                        then [Print (ascii ''Starting sandbox (template: '' @ py_str template_id
                                     @ ascii '')...'')]
                        else []);
                evs1 = evs0 @ [Create template_id timeout
                                 [(''CLAUDE_CODE_OAUTH_TOKEN'', oauth_token)]]
            in case create_outcome rem of
                 Raises m \<Rightarrow> (Inl (SandboxException m), evs1)
               | Returns sandbox \<Rightarrow>
                   (case finally_block rem sandbox verbose
                           (try_block rem sandbox code timeout verbose) of
                      (r, evs) \<Rightarrow> (r, evs1 @ evs))))"

subsection \<open>\<open>examples/api_server.py\<close>\<close>

text \<open>
  The module reads the three variables once; the handler is the second \<open>run_agent\<close> of
  the repository. The fields of the request and response models carry a prefix here.
  The \<open>except Exception\<close> clause turns an exception of the \<open>try\<close> block into a
  response; the \<open>finally\<close> clause kills the sandbox when there is one.
\<close>

record server_config =
  TEMPLATE_ID :: "pystr option"
  OAUTH_TOKEN :: "pystr option"
  E2B_API_KEY :: "pystr option"

record agent_request =
  req_prompt :: pystr
  req_model :: pystr
  req_timeout :: int
  req_allowed_tools :: "pystr list"

record agent_response =
  resp_success :: bool
  resp_result :: "pystr option"
  resp_error :: "pystr option"
  resp_sandbox_id :: "pystr option"

definition api_code_head :: pystr where
  \<open>api_code_head = ascii
     (''\<newline>'' @
      ''import asyncio\<newline>'' @
      ''import json\<newline>'' @
      ''from claude_agent_sdk import query, ClaudeAgentOptions\<newline>'' @
      ''\<newline>'' @
      ''async def main():\<newline>'' @
      ''    result = None\<newline>'' @
      ''    prompt = json.loads('')\<close>

definition api_code_tools :: pystr where
  \<open>api_code_tools = ascii
     ('')\<newline>'' @
      ''    allowed_tools = json.loads('')\<close>

definition api_code_model :: pystr where
  \<open>api_code_model = ascii
     ('')\<newline>'' @
      ''\<newline>'' @
      ''    async for msg in query(\<newline>'' @
      ''        prompt=prompt,\<newline>'' @
      ''        options=ClaudeAgentOptions(\<newline>'' @
      ''            model="'')\<close>

definition api_code_tail :: pystr where
  \<open>api_code_tail = ascii
     (''",\<newline>'' @
      ''            allowed_tools=allowed_tools,\<newline>'' @
      ''            max_turns=20\<newline>'' @
      ''        )\<newline>'' @
      ''    ):\<newline>'' @
      ''        if hasattr(msg, "result"):\<newline>'' @
      ''            result = msg.result\<newline>'' @
      ''\<newline>'' @
      ''    if result:\<newline>'' @
      ''        print(result)\<newline>'' @
      ''\<newline>'' @
      ''asyncio.run(main())\<newline>'')\<close>

definition api_agent_code :: "agent_request \<Rightarrow> pystr" where
  "api_agent_code request =
     api_code_head @ json_dumps (json_dumps (req_prompt request))
     @ api_code_tools @ json_dumps (json_dumps_list (req_allowed_tools request))
     @ api_code_model @ req_model request @ api_code_tail"

definition failure :: "pystr \<Rightarrow> pystr option \<Rightarrow> agent_response" where
  "failure msg sid =
     \<lparr>resp_success = False, resp_result = None, resp_error = Some msg, resp_sandbox_id = sid\<rparr>"

definition api_try_block ::
  "remote \<Rightarrow> pystr \<Rightarrow> pystr \<Rightarrow> int \<Rightarrow> agent_response \<times> event list" where
  "api_try_block rem sandbox code timeout =
     (let evs1 = [FilesWrite sandbox agent_path code]
      in case write_outcome rem of
           Raises m \<Rightarrow> (failure m (Some sandbox), evs1)
         | Returns _ \<Rightarrow>
             (let evs2 = evs1 @ [CommandsRun sandbox agent_command timeout]
              in case run_outcome rem of
                   Raises m \<Rightarrow> (failure m (Some sandbox), evs2)
                 | Returns res \<Rightarrow>
                     if exit_code res \<noteq> 0
                     then (failure (if stderr res \<noteq> [] then stderr res
                                    else ascii ''Agent failed'') (Some sandbox), evs2)
                     else (\<lparr>resp_success = True, resp_result = Some (py_strip (stdout res)),
                            resp_error = None, resp_sandbox_id = Some sandbox\<rparr>, evs2)))"

definition api_run_agent ::
  "server_config \<Rightarrow> remote \<Rightarrow> agent_request \<Rightarrow> (exn + agent_response) \<times> event list" where
  "api_run_agent cfg rem request =
     (if \<not> (truthy (TEMPLATE_ID cfg) \<and> truthy (OAUTH_TOKEN cfg) \<and> truthy (E2B_API_KEY cfg))
      then (Inl (HTTPException 500 (ascii ''Server not configured. Run onboarding.py'')), [])
      else
        (let code = api_agent_code request;
             evs1 = [Create (TEMPLATE_ID cfg) (req_timeout request)
                       [(''CLAUDE_CODE_OAUTH_TOKEN'', OAUTH_TOKEN cfg)]]
         in case create_outcome rem of
              Raises m \<Rightarrow> (Inr (failure m None), evs1)
            | Returns sandbox \<Rightarrow>
                (case api_try_block rem sandbox code (req_timeout request) of
                   (resp, evs) \<Rightarrow>
                     (case kill_outcome rem of
                        Raises m \<Rightarrow> (Inl (SandboxException m), evs1 @ evs @ [Kill sandbox])
                      | Returns _ \<Rightarrow> (Inr resp, evs1 @ evs @ [Kill sandbox])))))"

subsection \<open>\<open>examples/basic_sync.py\<close>\<close>

text \<open>
  The synchronous example validates nothing, uploads a constant program and passes
  literal timeouts.
\<close>

definition sync_agent_code :: pystr where
  \<open>sync_agent_code = ascii
     (''\<newline>'' @
      ''import asyncio\<newline>'' @
      ''from claude_agent_sdk import query\<newline>'' @
      ''\<newline>'' @
      ''async def main():\<newline>'' @
      ''    print("Agent starting...")\<newline>'' @
      ''    async for msg in query(prompt="What is 2 + 2? Reply in exactly 5 words."):\<newline>'' @
      ''        if hasattr(msg, "content"):\<newline>'' @
      ''            for block in msg.content:\<newline>'' @
      ''                if hasattr(block, "text"):\<newline>'' @
      ''                    print(f"Agent response: {block.text}")\<newline>'' @
      ''        elif hasattr(msg, "result"):\<newline>'' @
      ''            print(f"Final result: {msg.result}")\<newline>'' @
      ''\<newline>'' @
      ''asyncio.run(main())\<newline>'')\<close>

definition sync_try_block :: "remote \<Rightarrow> pystr \<Rightarrow> (exn + unit) \<times> event list" where
  "sync_try_block rem sandbox =
     (let evs1 = [Print (0x2705 # ascii '' Sandbox started''),
                  Print (0x1F916 # ascii '' Running Claude Agent SDK inside sandbox...\<newline>''),
                  FilesWrite sandbox agent_path sync_agent_code]
      in case write_outcome rem of
           Raises m \<Rightarrow> (Inl (SandboxException m), evs1)
         | Returns _ \<Rightarrow>
             (let evs2 = evs1 @ [CommandsRun sandbox agent_command 60]
              in case run_outcome rem of
                   Raises m \<Rightarrow> (Inl (SandboxException m), evs2)
                 | Returns res \<Rightarrow>
                     (Inr (), evs2 @ [Print (ascii ''--- Sandbox Output ---''), Print (stdout res)]
                        @ (if stderr res \<noteq> []
                           then [Print (ascii ''--- Stderr ---''), Print (stderr res)]
                           else []))))"

definition run_agent_in_sandbox ::
  "pystr option \<Rightarrow> pystr option \<Rightarrow> remote \<Rightarrow> (exn + unit) \<times> event list" where
  "run_agent_in_sandbox template_id oauth_token rem =
     (let evs1 = [Print (0x1F680 # ascii '' Starting sandbox...''),
                  Create template_id 120 [(''CLAUDE_CODE_OAUTH_TOKEN'', oauth_token)]]
      in case create_outcome rem of
           Raises m \<Rightarrow> (Inl (SandboxException m), evs1)
         | Returns sandbox \<Rightarrow>
             (case sync_try_block rem sandbox of
                (r, evs) \<Rightarrow>
                  (case kill_outcome rem of
                     Raises m \<Rightarrow> (Inl (SandboxException m), evs1 @ evs @ [Kill sandbox])
                   | Returns _ \<Rightarrow>
                       (r, evs1 @ evs @ [Kill sandbox,
                          Print (10 # 0x2705 # ascii '' Sandbox terminated'')]))))"

subsection \<open>\<open>scripts/validate_setup.py\<close>\<close>

text \<open>
  \<open>check_environment\<close> names the required environment variables and returns whether
  all of them are set; its printing is left out.
\<close>

definition required_vars :: "string list" where
  "required_vars = [''E2B_API_KEY'', ''E2B_TEMPLATE_ID'', ''CLAUDE_CODE_OAUTH_TOKEN'']"

definition check_environment :: "(string \<rightharpoonup> pystr) \<Rightarrow> bool" where
  "check_environment env = (filter (\<lambda>var. \<not> truthy (env var)) required_vars = [])"

subsection \<open>The checks of the two runners\<close>

text \<open>What \<open>run_agent.py\<close> tests before it goes on, and what the API handler tests.\<close>

definition configured :: "(string \<rightharpoonup> pystr) \<Rightarrow> bool" where
  "configured env \<longleftrightarrow>
     truthy (env ''E2B_TEMPLATE_ID'') \<and> truthy (env ''CLAUDE_CODE_OAUTH_TOKEN'')"

definition server_configured :: "server_config \<Rightarrow> bool" where
  "server_configured cfg \<longleftrightarrow>
     truthy (TEMPLATE_ID cfg) \<and> truthy (OAUTH_TOKEN cfg) \<and> truthy (E2B_API_KEY cfg)"

subsection \<open>Concrete runs\<close>

text \<open>
  An environment and a server configuration with every checked variable set (the
  environment has no \<open>E2B_API_KEY\<close>), a request, a provider whose \<open>create\<close> succeeds,
  and the prompt of the specification's injection example.
\<close>

definition demo_env :: "string \<rightharpoonup> pystr" where
  "demo_env = [''E2B_TEMPLATE_ID'' \<mapsto> ascii ''tmpl'', ''CLAUDE_CODE_OAUTH_TOKEN'' \<mapsto> ascii ''tok'']"

definition demo_cfg :: server_config where
  "demo_cfg = \<lparr>TEMPLATE_ID = Some (ascii ''tmpl''), OAUTH_TOKEN = Some (ascii ''tok''),
                E2B_API_KEY = Some (ascii ''e2b_key'')\<rparr>"

definition demo_request :: agent_request where
  "demo_request = \<lparr>req_prompt = ascii ''What is 2 + 2?'', req_model = ascii ''claude-sonnet-4-5'',
                    req_timeout = 5, req_allowed_tools = [ascii ''Read'', ascii ''Bash'']\<rparr>"

definition demo_remote ::
  "unit outcome \<Rightarrow> command_result outcome \<Rightarrow> unit outcome \<Rightarrow> remote" where
  "demo_remote w r k =
     \<lparr>create_outcome = Returns (ascii ''sbx''), write_outcome = w, run_outcome = r,
      kill_outcome = k\<rparr>"

definition injection_prompt :: pystr where
  \<open>injection_prompt = ascii ''"; rm -rf /''\<close>

subsection \<open>Auxiliary predicates of the proofs\<close>

definition printable :: "pystr \<Rightarrow> bool" where
  "printable s \<longleftrightarrow> (\<forall>c \<in> set s. 32 \<le> c \<and> c \<le> 126)"

text \<open>The text starts with the escape of a low surrogate (or a malformed \<open>\u\<close> escape).\<close>

fun low_escape_next :: "pystr \<Rightarrow> bool" where
  "low_escape_next (b # u # r2) =
     (b = 92 \<and> u = 117 \<and>
      (case decode_uXXXX r2 of None \<Rightarrow> True | Some (uni2, _) \<Rightarrow> is_low_surrogate uni2))"
| "low_escape_next _ = False"

section \<open>Lemmas on the encodings\<close>

subsection \<open>\<open>json.loads\<close> after \<open>json.dumps\<close>\<close>

lemma unhex_hexdigit: "d < 16 \<Longrightarrow> unhex (hexdigit d) = Some d"
  by (simp add: unhex_def hexdigit_def)

lemma hex4_value:
  assumes "n < 65536"
  shows "n div 4096 mod 16 * 4096 + n div 256 mod 16 * 256 + n div 16 mod 16 * 16 + n mod 16
         = (n::nat)"
proof -
  have a: "n mod 256 = 16 * (n div 16 mod 16) + n mod 16"
    using mod_mult2_eq [of n 16 16] by simp
  have b: "n mod 4096 = 256 * (n div 256 mod 16) + n mod 256"
    using mod_mult2_eq [of n 256 16] by simp
  have c: "n mod 65536 = 4096 * (n div 4096 mod 16) + n mod 4096"
    using mod_mult2_eq [of n 4096 16] by simp
  have "n mod 65536 = n" using assms by simp
  with a b c show ?thesis by linarith
qed

lemma decode_hex4: "n < 65536 \<Longrightarrow> decode_uXXXX (hex4 n @ r) = Some (n, r)"
  using hex4_value [of n] by (simp add: hex4_def unhex_hexdigit)

lemma scan_escape_u_plain:
  "c < 65536 \<Longrightarrow> \<not> is_high_surrogate c \<Longrightarrow> scan_escape (117 # hex4 c @ t) = Some (c, t)"
  by (simp add: decode_hex4)

lemma scan_escape_u_high:
  assumes "c < 65536" and "\<not> low_escape_next t"
  shows "scan_escape (117 # hex4 c @ t) = Some (c, t)"
proof (cases "is_high_surrogate c")
  case False
  with assms(1) show ?thesis by (rule scan_escape_u_plain)
next
  case True
  show ?thesis
  proof (cases t)
    case Nil
    then show ?thesis using True assms(1) decode_hex4 [of c "[]"] by simp
  next
    case outer: (Cons b t')
    show ?thesis
    proof (cases t')
      case Nil
      with outer show ?thesis using True assms(1) by (simp add: decode_hex4)
    next
      case (Cons u r2)
      with outer assms(2) have "\<not> (b = 92 \<and> u = 117) \<or>
          (\<exists>uni2 r3. decode_uXXXX r2 = Some (uni2, r3) \<and> \<not> is_low_surrogate uni2)"
        by (auto split: option.splits)
      then show ?thesis using True assms(1) outer Cons
        by (auto simp: decode_hex4)
    qed
  qed
qed

lemma scan_escape_pair:
  assumes "65536 \<le> c" and "c < 1114112"
  shows "scan_escape (117 # hex4 (55296 + (c - 65536) div 1024 mod 1024)
            @ 92 # 117 # hex4 (56320 + (c - 65536) mod 1024) @ t) = Some (c, t)"
proof -
  let ?n = "c - 65536"
  let ?hi = "55296 + ?n div 1024 mod 1024"
  let ?lo = "56320 + ?n mod 1024"
  have n: "?n < 1048576" using assms by simp
  then have d: "?n div 1024 < 1024" by simp
  have hi: "?hi < 65536" "is_high_surrogate ?hi"
    by (simp_all add: is_high_surrogate_def)
  have lo: "?lo < 65536" "is_low_surrogate ?lo"
    by (simp_all add: is_low_surrogate_def)
  have val: "65536 + ((?hi - 55296) * 1024 + (?lo - 56320)) = c"
    using assms d by simp
  have 1: "decode_uXXXX (hex4 ?hi @ 92 # 117 # hex4 ?lo @ t) = Some (?hi, 92 # 117 # hex4 ?lo @ t)"
    using hi(1) by (rule decode_hex4)
  have 2: "decode_uXXXX (hex4 ?lo @ t) = Some (?lo, t)"
    using lo(1) by (rule decode_hex4)
  show ?thesis
    unfolding scan_escape.simps using 1 2 hi(2) lo(2) val by simp
qed

lemma low_escape_next_u:
  "d < 65536 \<Longrightarrow> low_escape_next (92 # 117 # hex4 d @ t) = is_low_surrogate d"
  by (simp add: decode_hex4)

lemma low_escape_next_escape_char:
  assumes "d < 1114112" and "\<not> is_low_surrogate d"
  shows "\<not> low_escape_next (escape_char d @ t)"
proof -
  consider (simple) "d \<in> {34, 92, 10, 13, 9, 8, 12}"
    | (plain) "d \<notin> {34, 92, 10, 13, 9, 8, 12}" "32 \<le> d" "d \<le> 126"
    | (bmp) "d \<notin> {34, 92, 10, 13, 9, 8, 12}" "\<not> (32 \<le> d \<and> d \<le> 126)" "d < 65536"
    | (astral) "65536 \<le> d"
    by fastforce
  then show ?thesis
  proof cases
    case simple
    then show ?thesis by (auto simp: escape_char_def)
  next
    case plain
    then have "escape_char d = [d]" "d \<noteq> 92" by (auto simp: escape_char_def)
    then show ?thesis by (cases t) auto
  next
    case bmp
    then have "escape_char d = 92 # 117 # hex4 d" by (auto simp: escape_char_def u_escape_def)
    then show ?thesis using bmp(3) assms(2) by (simp add: decode_hex4)
  next
    case astral
    let ?hi = "55296 + (d - 65536) div 1024 mod 1024"
    have e: "escape_char d = 92 # 117 # hex4 ?hi @ u_escape (56320 + (d - 65536) mod 1024)"
      using astral by (simp add: escape_char_def u_escape_def Let_def)
    have h: "?hi < 65536" by simp
    have nl: "\<not> is_low_surrogate ?hi" by (simp add: is_low_surrogate_def)
    have "\<not> low_escape_next (92 # 117 # hex4 ?hi @ (u_escape (56320 + (d - 65536) mod 1024) @ t))"
      using low_escape_next_u [OF h] nl by blast
    then show ?thesis unfolding e by (simp del: low_escape_next.simps)
  qed
qed

lemma low_escape_next_tail:
  assumes "valid_str p" and "p = [] \<or> \<not> is_low_surrogate (hd p)"
  shows "\<not> low_escape_next (concat (map escape_char p) @ 34 # rest)"
proof (cases p)
  case Nil
  then show ?thesis by (cases rest) simp_all
next
  case (Cons d p')
  with assms have "d < 1114112" "\<not> is_low_surrogate d" by (simp_all add: valid_str_def)
  then have "\<not> low_escape_next (escape_char d @ (concat (map escape_char p') @ 34 # rest))"
    by (rule low_escape_next_escape_char)
  then show ?thesis using Cons by simp
qed

lemma scanstring_escape_char:
  assumes "c < 1114112" and "\<not> (is_high_surrogate c \<and> low_escape_next t)"
  shows "scanstring (escape_char c @ t) = map_option (\<lambda>(v, rest). (c # v, rest)) (scanstring t)"
proof -
  consider (simple) "c \<in> {34, 92, 10, 13, 9, 8, 12}"
    | (plain) "c \<notin> {34, 92, 10, 13, 9, 8, 12}" "32 \<le> c" "c \<le> 126"
    | (bmp) "c \<notin> {34, 92, 10, 13, 9, 8, 12}" "\<not> (32 \<le> c \<and> c \<le> 126)" "c < 65536"
    | (astral) "65536 \<le> c"
    by fastforce
  then show ?thesis
  proof cases
    case simple
    then show ?thesis by (auto simp: escape_char_def backslash_def)
  next
    case plain
    then have "escape_char c = [c]" by (auto simp: escape_char_def)
    then show ?thesis using plain by simp
  next
    case bmp
    then have e: "escape_char c = 92 # 117 # hex4 c" by (auto simp: escape_char_def u_escape_def)
    have "scan_escape (117 # hex4 c @ t) = Some (c, t)"
    proof (cases "is_high_surrogate c")
      case True
      with assms(2) have "\<not> low_escape_next t" by simp
      with bmp(3) show ?thesis by (rule scan_escape_u_high)
    next
      case False
      with bmp(3) show ?thesis by (rule scan_escape_u_plain)
    qed
    then show ?thesis unfolding e by simp
  next
    case astral
    have e: "escape_char c = 92 # 117 # hex4 (55296 + (c - 65536) div 1024 mod 1024)
            @ 92 # 117 # hex4 (56320 + (c - 65536) mod 1024)"
      using astral by (simp add: escape_char_def u_escape_def Let_def)
    show ?thesis unfolding e using scan_escape_pair [OF astral assms(1), of t] by simp
  qed
qed

lemma scanstring_escaped:
  "valid_str p \<Longrightarrow> no_surrogate_pair p \<Longrightarrow>
   scanstring (concat (map escape_char p) @ 34 # rest) = Some (p, rest)"
proof (induction p)
  case Nil
  show ?case by simp
next
  case (Cons c p)
  let ?t = "concat (map escape_char p) @ 34 # rest"
  from Cons.prems have v: "c < 1114112" "valid_str p" by (simp_all add: valid_str_def)
  from Cons.prems(2) have n: "no_surrogate_pair p" by (cases p) simp_all
  have "\<not> (is_high_surrogate c \<and> low_escape_next ?t)"
  proof (cases "is_high_surrogate c")
    case True
    with Cons.prems(2) have "p = [] \<or> \<not> is_low_surrogate (hd p)" by (cases p) simp_all
    with v(2) have "\<not> low_escape_next ?t" by (rule low_escape_next_tail)
    then show ?thesis by simp
  next
    case False
    then show ?thesis by simp
  qed
  with v(1) have "scanstring (escape_char c @ ?t)
      = map_option (\<lambda>(v, rest). (c # v, rest)) (scanstring ?t)"
    by (rule scanstring_escape_char)
  with Cons.IH [OF v(2) n] show ?case by simp
qed

lemma json_roundtrip:
  "valid_str p \<Longrightarrow> no_surrogate_pair p \<Longrightarrow> json_loads (json_dumps p) = Some p"
  using scanstring_escaped [of p "[]"]
  by (simp add: json_loads_def json_dumps_def json_ws_def)

lemma json_loads_dumps_pair: "json_loads (json_dumps [0xD83D, 0xDE00]) = Some [0x1F600]"
  by (simp add: json_loads_def json_dumps_def json_ws_def escape_char_def u_escape_def hex4_def
      hexdigit_def unhex_def is_high_surrogate_def is_low_surrogate_def)

subsection \<open>The string literal of the generated program\<close>

lemma hexdigit_printable: "d < 16 \<Longrightarrow> 32 \<le> hexdigit d \<and> hexdigit d \<le> 126"
  by (simp add: hexdigit_def)

lemma u_escape_printable: "printable (u_escape n)"
  by (simp add: printable_def u_escape_def hex4_def hexdigit_printable)

lemma printable_append: "printable (xs @ ys) \<longleftrightarrow> printable xs \<and> printable ys"
  by (auto simp: printable_def)

lemma escape_char_printable: "printable (escape_char c)"
  unfolding escape_char_def Let_def
  by (simp add: printable_append u_escape_printable) (simp add: printable_def)

lemma concat_escape_printable: "printable (concat (map escape_char s))"
  by (induction s) (simp_all add: printable_append escape_char_printable, simp add: printable_def)

lemma json_dumps_printable: "printable (json_dumps s)"
  using concat_escape_printable [of s] by (simp add: json_dumps_def printable_def)

lemma py_short_string_escape_char:
  assumes "32 \<le> c" and "c \<le> 126"
  shows "py_short_string (escape_char c @ t)
         = map_option (\<lambda>(w, rest). (c # w, rest)) (py_short_string t)"
proof -
  consider "c = 34" | "c = 92" | "c \<noteq> 34" "c \<noteq> 92" by blast
  then show ?thesis
  proof cases
    case 1
    then show ?thesis by (simp add: escape_char_def)
  next
    case 2
    then show ?thesis by (simp add: escape_char_def)
  next
    case 3
    with assms have "escape_char c = [c]" by (auto simp: escape_char_def)
    with 3 assms show ?thesis by auto
  qed
qed

lemma py_short_string_escaped:
  "printable s \<Longrightarrow> py_short_string (concat (map escape_char s) @ 34 # rest) = Some (s, rest)"
proof (induction s)
  case Nil
  show ?case by simp
next
  case (Cons c s)
  then have c: "32 \<le> c" "c \<le> 126" and s: "printable s" by (simp_all add: printable_def)
  from c have "py_short_string (escape_char c @ (concat (map escape_char s) @ 34 # rest))
      = map_option (\<lambda>(w, rest). (c # w, rest))
          (py_short_string (concat (map escape_char s) @ 34 # rest))"
    by (rule py_short_string_escape_char)
  with Cons.IH [OF s] show ?case by simp
qed

lemma escape_char_head:
  "32 \<le> c \<Longrightarrow> c \<le> 126 \<Longrightarrow> \<exists>x xs. escape_char c = x # xs \<and> (x = 34 \<longrightarrow> False)"
  by (auto simp: escape_char_def)

lemma py_string_literal_dumps:
  assumes "printable s" and "s \<noteq> []"
  shows "py_string_literal (json_dumps s @ rest) = Some (s, rest)"
proof -
  from assms(2) obtain c s' where s: "s = c # s'" by (cases s) auto
  with assms(1) have "32 \<le> c" "c \<le> 126" by (simp_all add: printable_def)
  then obtain x xs where x: "escape_char c = x # xs" "x \<noteq> 34"
    using escape_char_head by blast
  let ?body = "concat (map escape_char s) @ 34 # rest"
  have "take 2 ?body \<noteq> [34, 34]" using x s by simp
  moreover have "json_dumps s @ rest = 34 # ?body" by (simp add: json_dumps_def)
  ultimately have "py_string_literal (json_dumps s @ rest) = py_short_string ?body"
    by (simp add: py_string_literal_def)
  with assms(1) show ?thesis by (simp add: py_short_string_escaped)
qed

lemma strip_prefix_append: "strip_prefix p (p @ s) = Some s"
  by (simp add: strip_prefix_def)

lemma json_dumps_nonempty: "json_dumps s \<noteq> []"
  by (simp add: json_dumps_def)

lemma loads_argument_agent_code: "loads_argument (agent_code p) = Some (json_dumps p)"
  using py_string_literal_dumps [OF json_dumps_printable json_dumps_nonempty, of p agent_code_tail]
  by (simp add: loads_argument_def agent_code_def strip_prefix_append)

lemma py_short_string_plain:
  "\<forall>c \<in> set s. c \<noteq> 34 \<and> c \<noteq> 92 \<and> c \<noteq> 10 \<and> c \<noteq> 13 \<and> c \<noteq> 0 \<Longrightarrow>
   py_short_string (s @ 34 # rest) = Some (s, rest)"
  by (induction s) auto

lemma example_prompt_plain:
  "\<forall>c \<in> set example_prompt. c \<noteq> 34 \<and> c \<noteq> 92 \<and> c \<noteq> 10 \<and> c \<noteq> 13 \<and> c \<noteq> 0"
  by (simp add: example_prompt_def ascii_def)

lemma example_prompt_head: "take 2 (example_prompt @ xs) \<noteq> [34, 34]"
  by (simp add: example_prompt_def ascii_def)

lemma example_program_prompt_fixed:
  "example_program_prompt (example_agent_code example_prompt) = Some example_prompt"
  using py_short_string_plain [OF example_prompt_plain, of example_code_tail]
    example_prompt_head [of "34 # example_code_tail"]
  by (simp add: example_program_prompt_def example_agent_code_def strip_prefix_append
      py_string_literal_def)

lemma example_breaks_on_quote:
  "example_program_prompt (example_agent_code [34]) = None"
  by (simp add: example_program_prompt_def example_agent_code_def strip_prefix_append
      py_string_literal_def)

section \<open>Lemmas on the runs\<close>

lemma run_agent_created:
  assumes "configured env" and "create_outcome rem = Returns sandbox"
  shows "run_agent env rem p t v =
     (fst (finally_block rem sandbox v (try_block rem sandbox (agent_code p) t v)),
      (if v then [Print (ascii ''Starting sandbox (template: '' @ py_str (env ''E2B_TEMPLATE_ID'')
                         @ ascii '')...'')] else [])
      @ [Create (env ''E2B_TEMPLATE_ID'') t [(''CLAUDE_CODE_OAUTH_TOKEN'', env ''CLAUDE_CODE_OAUTH_TOKEN'')]]
      @ snd (finally_block rem sandbox v (try_block rem sandbox (agent_code p) t v)))"
  using assms by (simp add: run_agent_def configured_def Let_def split: prod.splits)

lemma try_block_no_create_kill:
  "filter is_create (snd (try_block rem sb code t v)) = [] \<and>
   filter is_kill (snd (try_block rem sb code t v)) = []"
  by (simp add: try_block_def Let_def split: outcome.splits)

lemma finally_block_kills:
  "filter is_kill (snd (finally_block rem sb v (r, evs))) = filter is_kill evs @ [Kill sb]"
  "filter is_create (snd (finally_block rem sb v (r, evs))) = filter is_create evs"
  by (simp_all add: finally_block_def split: outcome.splits)

lemma run_agent_one_context:
  assumes "configured env" and "create_outcome rem = Returns sandbox"
  shows "filter is_create (snd (run_agent env rem p t v))
           = [Create (env ''E2B_TEMPLATE_ID'') t
                [(''CLAUDE_CODE_OAUTH_TOKEN'', env ''CLAUDE_CODE_OAUTH_TOKEN'')]]"
    and "filter is_kill (snd (run_agent env rem p t v)) = [Kill sandbox]"
proof -
  obtain r evs where b: "try_block rem sandbox (agent_code p) t v = (r, evs)"
    by (cases "try_block rem sandbox (agent_code p) t v")
  have e: "filter is_create evs = []" "filter is_kill evs = []"
    using try_block_no_create_kill [of rem sandbox "agent_code p" t v] b by simp_all
  show "filter is_create (snd (run_agent env rem p t v))
           = [Create (env ''E2B_TEMPLATE_ID'') t
                [(''CLAUDE_CODE_OAUTH_TOKEN'', env ''CLAUDE_CODE_OAUTH_TOKEN'')]]"
    unfolding run_agent_created [OF assms] b using e by (simp add: finally_block_kills)
  show "filter is_kill (snd (run_agent env rem p t v)) = [Kill sandbox]"
    unfolding run_agent_created [OF assms] b using e by (simp add: finally_block_kills)
qed

lemma api_one_context:
  assumes "server_configured cfg" and "create_outcome rem = Returns sandbox"
  shows "filter is_create (snd (api_run_agent cfg rem req))
           = [Create (TEMPLATE_ID cfg) (req_timeout req)
                [(''CLAUDE_CODE_OAUTH_TOKEN'', OAUTH_TOKEN cfg)]]"
    and "filter is_kill (snd (api_run_agent cfg rem req)) = [Kill sandbox]"
  using assms
  by (simp_all add: api_run_agent_def api_try_block_def server_configured_def Let_def
      split: outcome.splits)

lemma run_agent_create_call:
  assumes "configured env"
  shows "filter is_create (snd (run_agent env rem p t v))
           = [Create (env ''E2B_TEMPLATE_ID'') t
                [(''CLAUDE_CODE_OAUTH_TOKEN'', env ''CLAUDE_CODE_OAUTH_TOKEN'')]]"
proof (cases "create_outcome rem")
  case (Raises m)
  with assms show ?thesis by (simp add: run_agent_def configured_def Let_def)
next
  case (Returns sb)
  with assms show ?thesis by (rule run_agent_one_context(1))
qed

lemma fst_finally_block:
  "fst (finally_block rem sb v body) =
     (case kill_outcome rem of Raises m \<Rightarrow> Inl (SandboxException m) | Returns _ \<Rightarrow> fst body)"
  by (cases body) (simp add: finally_block_def split: outcome.splits)

lemma fst_try_block_ran:
  assumes "write_outcome rem = Returns ()" and "run_outcome rem = Returns res"
  shows "fst (try_block rem sb code t v) =
     (if exit_code res \<noteq> 0 then Inl (RuntimeError (ascii ''Agent failed: '' @ stderr res))
      else Inr (py_strip (stdout res)))"
  using assms by (simp add: try_block_def Let_def)

lemma fst_run_agent_created:
  assumes "configured env" and "create_outcome rem = Returns sb"
  shows "fst (run_agent env rem p t v) =
     (case kill_outcome rem of
        Raises m \<Rightarrow> Inl (SandboxException m)
      | Returns _ \<Rightarrow> fst (try_block rem sb (agent_code p) t v))"
  unfolding run_agent_created [OF assms] by (simp add: fst_finally_block)

lemma fst_api_created:
  assumes "server_configured cfg" and "create_outcome rem = Returns sb"
  shows "fst (api_run_agent cfg rem req) =
     (case kill_outcome rem of
        Raises m \<Rightarrow> Inl (SandboxException m)
      | Returns _ \<Rightarrow> Inr (fst (api_try_block rem sb (api_agent_code req) (req_timeout req))))"
  using assms by (simp add: api_run_agent_def server_configured_def Let_def
      split: outcome.splits prod.splits)

lemma py_strip_Nil: "py_strip [] = []"
  by (simp add: py_strip_def)

lemma py_strip_surrounded:
  assumes "\<forall>c \<in> set ws1. py_isspace c" and "\<forall>c \<in> set ws2. py_isspace c"
    and "s \<noteq> []" and "\<not> py_isspace (hd s)" and "\<not> py_isspace (last s)"
  shows "py_strip (ws1 @ s @ ws2) = s"
proof -
  from assms(3) obtain x xs where s: "s = x # xs" by (cases s) auto
  have "dropWhile py_isspace (ws1 @ s @ ws2) = dropWhile py_isspace (s @ ws2)"
    using assms(1) by (simp add: dropWhile_append2)
  also have "\<dots> = s @ ws2" using assms(4) s by simp
  finally have 1: "dropWhile py_isspace (ws1 @ s @ ws2) = s @ ws2" .
  from assms(3) obtain ys y where r: "s = ys @ [y]" by (cases s rule: rev_cases) auto
  with assms(5) have ny: "\<not> py_isspace y" by simp
  have "dropWhile py_isspace (rev ws2 @ rev s) = dropWhile py_isspace (rev s)"
    by (rule dropWhile_append2) (use assms(2) in auto)
  also have "\<dots> = rev s" using ny by (simp add: r)
  finally show ?thesis using 1 by (simp add: py_strip_def)
qed

lemma py_strip_four:
  assumes "\<forall>c \<in> set ws1. py_isspace c" and "\<forall>c \<in> set ws2. py_isspace c"
  shows "py_strip (ws1 @ ascii ''4'' @ ws2) = ascii ''4''"
  using py_strip_surrounded [OF assms, of "ascii ''4''"]
  by (simp add: ascii_def py_isspace_def)

lemma agent_main_no_result:
  "\<forall>m \<in> set msgs. m = Other \<Longrightarrow> agent_main msgs = []"
proof -
  have "\<forall>m \<in> set msgs. m = Other \<Longrightarrow> last_result r msgs = r" for r
    by (induction msgs) auto
  then show "\<forall>m \<in> set msgs. m = Other \<Longrightarrow> agent_main msgs = []"
    by (simp add: agent_main_def truthy_def)
qed

lemma config_error_before_provisioning:
  "\<not> configured env \<Longrightarrow> \<exists>msg. run_agent env rem p t v = (Inl (ValueError msg), [])"
  "\<not> server_configured cfg \<Longrightarrow>
     api_run_agent cfg rem req
       = (Inl (HTTPException 500 (ascii ''Server not configured. Run onboarding.py'')), [])"
  by (auto simp: run_agent_def configured_def Let_def api_run_agent_def server_configured_def)

lemma run_agent_timeouts:
  "(create_timeouts (snd (run_agent env rem p t v)) = []
     \<or> create_timeouts (snd (run_agent env rem p t v)) = [t])
   \<and> (run_timeouts (snd (run_agent env rem p t v)) = []
     \<or> run_timeouts (snd (run_agent env rem p t v)) = [t])"
  by (simp add: run_agent_def try_block_def finally_block_def Let_def split: outcome.splits)

lemma api_timeouts:
  "(create_timeouts (snd (api_run_agent cfg rem req)) = []
     \<or> create_timeouts (snd (api_run_agent cfg rem req)) = [req_timeout req])
   \<and> (run_timeouts (snd (api_run_agent cfg rem req)) = []
     \<or> run_timeouts (snd (api_run_agent cfg rem req)) = [req_timeout req])"
  by (simp add: api_run_agent_def api_try_block_def Let_def split: outcome.splits)

lemma run_agent_written:
  "written (snd (run_agent env rem p t v)) = []
   \<or> written (snd (run_agent env rem p t v)) = [agent_code p]"
  by (simp add: run_agent_def try_block_def finally_block_def Let_def split: outcome.splits)

lemma api_written:
  "written (snd (api_run_agent cfg rem req)) = []
   \<or> written (snd (api_run_agent cfg rem req)) = [api_agent_code req]"
  by (simp add: api_run_agent_def api_try_block_def Let_def split: outcome.splits)

lemma run_agent_redacted:
  assumes "configured env1" and "configured env2"
    and "env1 ''E2B_TEMPLATE_ID'' = env2 ''E2B_TEMPLATE_ID''"
  shows "map redact (snd (run_agent env1 rem p t v)) = map redact (snd (run_agent env2 rem p t v))"
    and "fst (run_agent env1 rem p t v) = fst (run_agent env2 rem p t v)"
proof -
  show "map redact (snd (run_agent env1 rem p t v)) = map redact (snd (run_agent env2 rem p t v))"
  proof (cases "create_outcome rem")
    case (Raises m)
    with assms show ?thesis by (simp add: run_agent_def configured_def Let_def)
  next
    case (Returns sb)
    show ?thesis
      unfolding run_agent_created [OF assms(1) Returns] run_agent_created [OF assms(2) Returns]
      using assms(3) by simp
  qed
  show "fst (run_agent env1 rem p t v) = fst (run_agent env2 rem p t v)"
  proof (cases "create_outcome rem")
    case (Raises m)
    with assms show ?thesis by (simp add: run_agent_def configured_def Let_def)
  next
    case (Returns sb)
    show ?thesis
      by (simp add: fst_run_agent_created [OF assms(1) Returns]
          fst_run_agent_created [OF assms(2) Returns])
  qed
qed

lemma api_redacted:
  assumes "server_configured cfg1" and "server_configured cfg2"
    and "TEMPLATE_ID cfg1 = TEMPLATE_ID cfg2"
  shows "map redact (snd (api_run_agent cfg1 rem req))
           = map redact (snd (api_run_agent cfg2 rem req))"
    and "fst (api_run_agent cfg1 rem req) = fst (api_run_agent cfg2 rem req)"
  using assms
  by (simp_all add: api_run_agent_def server_configured_def Let_def
      split: outcome.splits prod.splits)

lemma fst_try_block_write_raises:
  "write_outcome rem = Raises mw \<Longrightarrow>
   fst (try_block rem sb code t v) = Inl (SandboxException mw)"
  by (simp add: try_block_def Let_def)

lemma fst_try_block_run_raises:
  "write_outcome rem = Returns () \<Longrightarrow> run_outcome rem = Raises mr \<Longrightarrow>
   fst (try_block rem sb code t v) = Inl (SandboxException mr)"
  by (simp add: try_block_def Let_def)

lemma fst_api_try_block:
  "write_outcome rem = Raises mw \<Longrightarrow>
     fst (api_try_block rem sb code t) = failure mw (Some sb)"
  "write_outcome rem = Returns () \<Longrightarrow> run_outcome rem = Raises mr \<Longrightarrow>
     fst (api_try_block rem sb code t) = failure mr (Some sb)"
  "write_outcome rem = Returns () \<Longrightarrow> run_outcome rem = Returns res \<Longrightarrow> exit_code res \<noteq> 0 \<Longrightarrow>
     fst (api_try_block rem sb code t)
       = failure (if stderr res \<noteq> [] then stderr res else ascii ''Agent failed'') (Some sb)"
  by (simp_all add: api_try_block_def Let_def)

section \<open>The claims\<close>

subsection \<open>C1: the prompt inside the generated program\<close>

text \<open>
  C1, as amended. For every prompt, the program text that \<open>run_agent\<close> generates is the
  fixed template around one well-formed string literal, whatever quotes, backslashes or
  newlines the prompt contains. For every prompt in which no high surrogate is directly
  followed by a low surrogate (so for every well-formed Unicode text), decoding that
  literal inside the program gives back exactly the prompt. The example program of
  \<open>examples/run_agent.py\<close> passes on its one, constant prompt unchanged.
\<close>

theorem C1_prompt_roundtrip:
  "loads_argument (agent_code p) = Some (json_dumps p)
   \<and> (valid_str p \<and> no_surrogate_pair p \<longrightarrow> program_prompt (agent_code p) = Some p)
   \<and> example_program_prompt (example_agent_code example_prompt) = Some example_prompt"
  by (simp add: program_prompt_def loads_argument_agent_code json_roundtrip
      example_program_prompt_fixed)

text \<open>The prompt \<open>"; rm -rf /\<close> of the specification reaches the agent as it is.\<close>

theorem C1_prompt_roundtrip_witness:
  "valid_str injection_prompt \<and> no_surrogate_pair injection_prompt
   \<and> program_prompt (agent_code injection_prompt) = Some injection_prompt"
proof -
  have a: "valid_str injection_prompt"
    by (simp add: injection_prompt_def ascii_def valid_str_def)
  have b: "no_surrogate_pair injection_prompt"
    by (simp add: injection_prompt_def ascii_def is_high_surrogate_def)
  from C1_prompt_roundtrip [of injection_prompt] a b
  have "program_prompt (agent_code injection_prompt) = Some injection_prompt" by blast
  with a b show ?thesis by blast
qed

text \<open>
  C1 as stated fails: the two-character prompt made of the surrogates \<open>U+D83D\<close> and
  \<open>U+DE00\<close> is encoded as two \<open>\u\<close> escapes, which the decoder joins into the single
  code point \<open>U+1F600\<close>.
\<close>

theorem C1_surrogate_pair_counterexample:
  "valid_str [0xD83D, 0xDE00]
   \<and> program_prompt (agent_code [0xD83D, 0xDE00]) = Some [0x1F600]
   \<and> program_prompt (agent_code [0xD83D, 0xDE00]) \<noteq> Some [0xD83D, 0xDE00]"
  by (simp add: program_prompt_def loads_argument_agent_code json_loads_dumps_pair valid_str_def)

subsection \<open>C2: one execution context, released once\<close>

text \<open>
  C2. In every run of \<open>run_agent\<close> and of the API handler in which the configuration
  checks pass and \<open>create\<close> returns a sandbox, exactly one \<open>create\<close> call is made and
  exactly one \<open>kill\<close> call, on that sandbox, whatever the upload, the execution, the
  result handling and the \<open>kill\<close> itself do.
\<close>

theorem C2_one_context_one_release:
  assumes "configured env" and "server_configured cfg"
    and "create_outcome rem = Returns sandbox"
  shows "filter is_create (snd (run_agent env rem p t v))
           = [Create (env ''E2B_TEMPLATE_ID'') t
                [(''CLAUDE_CODE_OAUTH_TOKEN'', env ''CLAUDE_CODE_OAUTH_TOKEN'')]]
       \<and> filter is_kill (snd (run_agent env rem p t v)) = [Kill sandbox]
       \<and> filter is_create (snd (api_run_agent cfg rem req))
           = [Create (TEMPLATE_ID cfg) (req_timeout req)
                [(''CLAUDE_CODE_OAUTH_TOKEN'', OAUTH_TOKEN cfg)]]
       \<and> filter is_kill (snd (api_run_agent cfg rem req)) = [Kill sandbox]"
  using run_agent_one_context [OF assms(1,3)] api_one_context [OF assms(2,3)] by simp

text \<open>A run whose upload and whose \<open>kill\<close> both raise still calls \<open>kill\<close> once.\<close>

theorem C2_one_context_one_release_witness:
  "configured demo_env \<and> server_configured demo_cfg
   \<and> create_outcome
        (demo_remote (Raises (ascii ''upload failed'')) (Raises []) (Raises (ascii ''kill failed'')))
        = Returns (ascii ''sbx'')
   \<and> filter is_kill (snd (run_agent demo_env
        (demo_remote (Raises (ascii ''upload failed'')) (Raises []) (Raises (ascii ''kill failed'')))
        (ascii ''hi'') 5 True)) = [Kill (ascii ''sbx'')]
   \<and> filter is_kill (snd (api_run_agent demo_cfg
        (demo_remote (Raises (ascii ''upload failed'')) (Raises []) (Raises (ascii ''kill failed'')))
        demo_request)) = [Kill (ascii ''sbx'')]"
proof -
  let ?rem =
    "demo_remote (Raises (ascii ''upload failed'')) (Raises []) (Raises (ascii ''kill failed''))"
  have a: "configured demo_env" by (simp add: configured_def demo_env_def truthy_def ascii_def)
  have b: "server_configured demo_cfg"
    by (simp add: server_configured_def demo_cfg_def truthy_def ascii_def)
  have c: "create_outcome ?rem = Returns (ascii ''sbx'')" by (simp add: demo_remote_def)
  show ?thesis
    using a b c C2_one_context_one_release [OF a b c, of "ascii ''hi''" 5 True demo_request]
    by simp
qed

subsection \<open>C3: missing configuration\<close>

text \<open>
  C3 against the code. \<open>check_environment\<close> counts \<open>E2B_API_KEY\<close> among the required
  variables, and the API handler refuses to run without it. \<open>run_agent\<close> never reads
  it: in an environment that has the template identifier and the OAuth token but no
  \<open>E2B_API_KEY\<close> it raises no configuration error and makes the \<open>create\<close> call.
\<close>

theorem C3_api_key_not_validated:
  "\<not> check_environment demo_env
   \<and> filter is_create (snd (run_agent demo_env rem p t v))
       = [Create (Some (ascii ''tmpl'')) t [(''CLAUDE_CODE_OAUTH_TOKEN'', Some (ascii ''tok''))]]
   \<and> api_run_agent (demo_cfg\<lparr>E2B_API_KEY := None\<rparr>) rem req
       = (Inl (HTTPException 500 (ascii ''Server not configured. Run onboarding.py'')), [])"
proof -
  have a: "configured demo_env" by (simp add: configured_def demo_env_def truthy_def ascii_def)
  have "\<not> check_environment demo_env"
    by (simp add: check_environment_def required_vars_def demo_env_def truthy_def)
  moreover have "filter is_create (snd (run_agent demo_env rem p t v))
       = [Create (Some (ascii ''tmpl'')) t [(''CLAUDE_CODE_OAUTH_TOKEN'', Some (ascii ''tok''))]]"
    using run_agent_create_call [OF a, of rem p t v] by (simp add: demo_env_def)
  moreover have "api_run_agent (demo_cfg\<lparr>E2B_API_KEY := None\<rparr>) rem req
       = (Inl (HTTPException 500 (ascii ''Server not configured. Run onboarding.py'')), [])"
    by (simp add: api_run_agent_def demo_cfg_def truthy_def)
  ultimately show ?thesis by simp
qed

subsection \<open>C4: a program that exits with a non-zero status\<close>

text \<open>
  C4, as amended. In every run of \<open>run_agent\<close> in which the program was uploaded and run
  and exited with a non-zero status, \<open>kill\<close> is called exactly once, and if that call
  returns, the run fails with the \<open>RuntimeError\<close> whose message ends with the captured
  standard error.
\<close>

theorem C4_nonzero_exit:
  assumes "configured env" and "create_outcome rem = Returns sandbox"
    and "write_outcome rem = Returns ()" and "run_outcome rem = Returns res"
    and "exit_code res \<noteq> 0"
  shows "filter is_kill (snd (run_agent env rem p t v)) = [Kill sandbox]
       \<and> (kill_outcome rem = Returns () \<longrightarrow>
            fst (run_agent env rem p t v)
              = Inl (RuntimeError (ascii ''Agent failed: '' @ stderr res)))"
  using assms run_agent_one_context(2) [OF assms(1,2)]
  by (simp add: fst_run_agent_created fst_try_block_ran)

text \<open>Exit status 1 with standard error \<open>boom\<close>.\<close>

theorem C4_nonzero_exit_witness:
  "configured demo_env
   \<and> exit_code \<lparr>exit_code = 1, stdout = [], stderr = ascii ''boom''\<rparr> \<noteq> 0
   \<and> kill_outcome (demo_remote (Returns ())
         (Returns \<lparr>exit_code = 1, stdout = [], stderr = ascii ''boom''\<rparr>) (Returns ()))
       = Returns ()
   \<and> fst (run_agent demo_env
        (demo_remote (Returns ())
           (Returns \<lparr>exit_code = 1, stdout = [], stderr = ascii ''boom''\<rparr>) (Returns ()))
        (ascii ''hi'') 5 False)
       = Inl (RuntimeError (ascii ''Agent failed: '' @ ascii ''boom''))
   \<and> filter is_kill (snd (run_agent demo_env
        (demo_remote (Returns ())
           (Returns \<lparr>exit_code = 1, stdout = [], stderr = ascii ''boom''\<rparr>) (Returns ()))
        (ascii ''hi'') 5 False)) = [Kill (ascii ''sbx'')]"
proof -
  let ?res = "\<lparr>exit_code = 1, stdout = [], stderr = ascii ''boom''\<rparr>"
  let ?rem = "demo_remote (Returns ()) (Returns ?res) (Returns ())"
  have a: "configured demo_env" by (simp add: configured_def demo_env_def truthy_def ascii_def)
  have b: "create_outcome ?rem = Returns (ascii ''sbx'')" by (simp add: demo_remote_def)
  have c: "write_outcome ?rem = Returns ()" by (simp add: demo_remote_def)
  have d: "run_outcome ?rem = Returns ?res" by (simp add: demo_remote_def)
  have e: "exit_code ?res \<noteq> 0" by simp
  have f: "kill_outcome ?rem = Returns ()" by (simp add: demo_remote_def)
  show ?thesis
    using a e f C4_nonzero_exit [OF a b c d e, of "ascii ''hi''" 5 False] by simp
qed

text \<open>
  C4 as stated fails when the \<open>kill\<close> call raises: the exception of the \<open>finally\<close>
  block is what the caller gets, not the \<open>RuntimeError\<close> with the standard error.
\<close>

theorem C4_release_failure_counterexample:
  "exit_code \<lparr>exit_code = 1, stdout = [], stderr = ascii ''boom''\<rparr> \<noteq> 0
   \<and> fst (run_agent demo_env
        (demo_remote (Returns ())
           (Returns \<lparr>exit_code = 1, stdout = [], stderr = ascii ''boom''\<rparr>)
           (Raises (ascii ''kill failed'')))
        (ascii ''hi'') 5 False)
      = Inl (SandboxException (ascii ''kill failed''))"
proof -
  have a: "configured demo_env" by (simp add: configured_def demo_env_def truthy_def ascii_def)
  show ?thesis by (simp add: fst_run_agent_created [OF a] demo_remote_def)
qed

subsection \<open>C5: a program that exits with status 0\<close>

text \<open>
  C5, as amended. In every run in which the program was uploaded and run and exited with
  status 0, and in which the \<open>kill\<close> call returns, \<open>run_agent\<close> returns the standard
  output stripped of surrounding whitespace and the API handler answers with success and
  that same text; a standard output of \<open>4\<close> between any whitespace gives \<open>4\<close>.
\<close>

theorem C5_zero_exit:
  assumes "configured env" and "server_configured cfg"
    and "create_outcome rem = Returns sandbox"
    and "write_outcome rem = Returns ()" and "run_outcome rem = Returns res"
    and "exit_code res = 0" and "kill_outcome rem = Returns ()"
  shows "fst (run_agent env rem p t v) = Inr (py_strip (stdout res))
       \<and> fst (api_run_agent cfg rem req)
           = Inr \<lparr>resp_success = True, resp_result = Some (py_strip (stdout res)),
                   resp_error = None, resp_sandbox_id = Some sandbox\<rparr>
       \<and> ((\<forall>c \<in> set ws1 \<union> set ws2. py_isspace c) \<and> stdout res = ws1 @ ascii ''4'' @ ws2
            \<longrightarrow> fst (run_agent env rem p t v) = Inr (ascii ''4''))"
proof -
  have 1: "fst (run_agent env rem p t v) = Inr (py_strip (stdout res))"
    using assms by (simp add: fst_run_agent_created fst_try_block_ran)
  have 2: "fst (api_run_agent cfg rem req)
           = Inr \<lparr>resp_success = True, resp_result = Some (py_strip (stdout res)),
                   resp_error = None, resp_sandbox_id = Some sandbox\<rparr>"
    using assms by (simp add: fst_api_created api_try_block_def Let_def)
  have 3: "fst (run_agent env rem p t v) = Inr (ascii ''4'')"
    if "\<forall>c \<in> set ws1 \<union> set ws2. py_isspace c" and "stdout res = ws1 @ ascii ''4'' @ ws2"
    using that 1 py_strip_four [of ws1 ws2] by simp
  from 1 2 3 show ?thesis by blast
qed

text \<open>Standard output \<open>4\<close> after a space and a tab and before a newline.\<close>

theorem C5_zero_exit_witness:
  "configured demo_env \<and> server_configured demo_cfg
   \<and> list_all py_isspace [32, 9] \<and> list_all py_isspace [10]
   \<and> exit_code \<lparr>exit_code = 0, stdout = [32, 9] @ ascii ''4'' @ [10], stderr = []\<rparr> = 0
   \<and> fst (run_agent demo_env
        (demo_remote (Returns ())
           (Returns \<lparr>exit_code = 0, stdout = [32, 9] @ ascii ''4'' @ [10], stderr = []\<rparr>)
           (Returns ()))
        (ascii ''What is 2 + 2?'') 5 False) = Inr (ascii ''4'')"
proof -
  let ?res = "\<lparr>exit_code = 0, stdout = [32, 9] @ ascii ''4'' @ [10], stderr = []\<rparr>"
  let ?rem = "demo_remote (Returns ()) (Returns ?res) (Returns ())"
  have a: "configured demo_env" by (simp add: configured_def demo_env_def truthy_def ascii_def)
  have b: "server_configured demo_cfg"
    by (simp add: server_configured_def demo_cfg_def truthy_def ascii_def)
  have c: "create_outcome ?rem = Returns (ascii ''sbx'')" by (simp add: demo_remote_def)
  have d: "write_outcome ?rem = Returns ()" by (simp add: demo_remote_def)
  have e: "run_outcome ?rem = Returns ?res" by (simp add: demo_remote_def)
  have f: "exit_code ?res = 0" by simp
  have g: "kill_outcome ?rem = Returns ()" by (simp add: demo_remote_def)
  have h: "\<forall>c \<in> set [32, 9] \<union> set [10]. py_isspace c" by (simp add: py_isspace_def)
  have i: "stdout ?res = [32, 9] @ ascii ''4'' @ [10]" by simp
  from C5_zero_exit [OF a b c d e f g, of "ascii ''What is 2 + 2?''" 5 False demo_request
      "[32, 9]" "[10]"] h i
  have "fst (run_agent demo_env ?rem (ascii ''What is 2 + 2?'') 5 False) = Inr (ascii ''4'')"
    by blast
  moreover have "list_all py_isspace [32, 9]" "list_all py_isspace [10]"
    by (simp_all add: py_isspace_def)
  ultimately show ?thesis using a b f by blast
qed

text \<open>
  C5 as stated fails when the \<open>kill\<close> call raises: the value of the \<open>return\<close>
  statement is dropped and the run fails with the exception of \<open>kill\<close>.
\<close>

theorem C5_release_failure_counterexample:
  "exit_code \<lparr>exit_code = 0, stdout = ascii ''4'', stderr = []\<rparr> = 0
   \<and> fst (run_agent demo_env
        (demo_remote (Returns ())
           (Returns \<lparr>exit_code = 0, stdout = ascii ''4'', stderr = []\<rparr>)
           (Raises (ascii ''kill timed out'')))
        (ascii ''What is 2 + 2?'') 5 False)
      = Inl (SandboxException (ascii ''kill timed out''))"
proof -
  have a: "configured demo_env" by (simp add: configured_def demo_env_def truthy_def ascii_def)
  show ?thesis by (simp add: fst_run_agent_created [OF a] demo_remote_def)
qed

subsection \<open>C6: a release that fails\<close>

text \<open>
  C6, as amended. Take a run in which the sandbox was created. When the upload raises,
  when the execution raises, or when the program exits with a non-zero status, and the
  \<open>kill\<close> call returns, \<open>run_agent\<close> raises that primary error and the API handler
  returns it as a failure response. When the \<open>kill\<close> call raises, its exception is what
  \<open>run_agent\<close> and the API handler raise, in place of the primary error.
\<close>

theorem C6_release_failure_replaces_outcome:
  assumes "configured env" and "server_configured cfg"
    and "create_outcome rem = Returns sandbox"
  shows "(write_outcome rem = Raises mw \<and> kill_outcome rem = Returns () \<longrightarrow>
            fst (run_agent env rem p t v) = Inl (SandboxException mw)
            \<and> fst (api_run_agent cfg rem req) = Inr (failure mw (Some sandbox)))
       \<and> (write_outcome rem = Returns () \<and> run_outcome rem = Raises mr
            \<and> kill_outcome rem = Returns () \<longrightarrow>
            fst (run_agent env rem p t v) = Inl (SandboxException mr)
            \<and> fst (api_run_agent cfg rem req) = Inr (failure mr (Some sandbox)))
       \<and> (write_outcome rem = Returns () \<and> run_outcome rem = Returns res \<and> exit_code res \<noteq> 0
            \<and> kill_outcome rem = Returns () \<longrightarrow>
            fst (run_agent env rem p t v)
              = Inl (RuntimeError (ascii ''Agent failed: '' @ stderr res))
            \<and> fst (api_run_agent cfg rem req)
              = Inr (failure (if stderr res \<noteq> [] then stderr res else ascii ''Agent failed'')
                       (Some sandbox)))
       \<and> (kill_outcome rem = Raises m \<longrightarrow>
            fst (run_agent env rem p t v) = Inl (SandboxException m)
            \<and> fst (api_run_agent cfg rem req) = Inl (SandboxException m))"
proof -
  note run = fst_run_agent_created [OF assms(1,3), of p t v]
  note api = fst_api_created [OF assms(2,3), of req]
  have 1: "fst (run_agent env rem p t v) = Inl (SandboxException mw)
        \<and> fst (api_run_agent cfg rem req) = Inr (failure mw (Some sandbox))"
    if "write_outcome rem = Raises mw" "kill_outcome rem = Returns ()"
    using that by (simp add: run api fst_try_block_write_raises fst_api_try_block(1))
  have 2: "fst (run_agent env rem p t v) = Inl (SandboxException mr)
        \<and> fst (api_run_agent cfg rem req) = Inr (failure mr (Some sandbox))"
    if "write_outcome rem = Returns ()" "run_outcome rem = Raises mr"
      "kill_outcome rem = Returns ()"
    using that by (simp add: run api fst_try_block_run_raises fst_api_try_block(2))
  have 3: "fst (run_agent env rem p t v)
              = Inl (RuntimeError (ascii ''Agent failed: '' @ stderr res))
        \<and> fst (api_run_agent cfg rem req)
              = Inr (failure (if stderr res \<noteq> [] then stderr res else ascii ''Agent failed'')
                       (Some sandbox))"
    if "write_outcome rem = Returns ()" "run_outcome rem = Returns res" "exit_code res \<noteq> 0"
      "kill_outcome rem = Returns ()"
    using that by (simp add: run api fst_try_block_ran fst_api_try_block(3))
  have 4: "fst (run_agent env rem p t v) = Inl (SandboxException m)
        \<and> fst (api_run_agent cfg rem req) = Inl (SandboxException m)"
    if "kill_outcome rem = Raises m"
    using that by (simp add: run api)
  from 1 2 3 4 show ?thesis by blast
qed

text \<open>
  One run in which the upload raises and then \<open>kill\<close> raises, and one in which the
  execution raises and \<open>kill\<close> returns.
\<close>

theorem C6_release_failure_replaces_outcome_witness:
  "configured demo_env \<and> server_configured demo_cfg
   \<and> write_outcome
        (demo_remote (Raises (ascii ''upload failed'')) (Raises []) (Raises (ascii ''kill failed'')))
       = Raises (ascii ''upload failed'')
   \<and> kill_outcome
        (demo_remote (Raises (ascii ''upload failed'')) (Raises []) (Raises (ascii ''kill failed'')))
       = Raises (ascii ''kill failed'')
   \<and> fst (api_run_agent demo_cfg
        (demo_remote (Raises (ascii ''upload failed'')) (Raises []) (Raises (ascii ''kill failed'')))
        demo_request)
       = Inl (SandboxException (ascii ''kill failed''))
   \<and> run_outcome (demo_remote (Returns ()) (Raises (ascii ''timed out'')) (Returns ()))
       = Raises (ascii ''timed out'')
   \<and> kill_outcome (demo_remote (Returns ()) (Raises (ascii ''timed out'')) (Returns ()))
       = Returns ()
   \<and> fst (run_agent demo_env
        (demo_remote (Returns ()) (Raises (ascii ''timed out'')) (Returns ()))
        (ascii ''hi'') 5 False)
       = Inl (SandboxException (ascii ''timed out''))
   \<and> fst (api_run_agent demo_cfg
        (demo_remote (Returns ()) (Raises (ascii ''timed out'')) (Returns ()))
        demo_request)
       = Inr (failure (ascii ''timed out'') (Some (ascii ''sbx'')))"
proof -
  let ?r1 =
    "demo_remote (Raises (ascii ''upload failed'')) (Raises []) (Raises (ascii ''kill failed''))"
  let ?r2 = "demo_remote (Returns ()) (Raises (ascii ''timed out'')) (Returns ())"
  have a: "configured demo_env" by (simp add: configured_def demo_env_def truthy_def ascii_def)
  have b: "server_configured demo_cfg"
    by (simp add: server_configured_def demo_cfg_def truthy_def ascii_def)
  have c1: "create_outcome ?r1 = Returns (ascii ''sbx'')" by (simp add: demo_remote_def)
  have c2: "create_outcome ?r2 = Returns (ascii ''sbx'')" by (simp add: demo_remote_def)
  have w1: "write_outcome ?r1 = Raises (ascii ''upload failed'')" by (simp add: demo_remote_def)
  have k1: "kill_outcome ?r1 = Raises (ascii ''kill failed'')" by (simp add: demo_remote_def)
  have w2: "write_outcome ?r2 = Returns ()" by (simp add: demo_remote_def)
  have r2: "run_outcome ?r2 = Raises (ascii ''timed out'')" by (simp add: demo_remote_def)
  have k2: "kill_outcome ?r2 = Returns ()" by (simp add: demo_remote_def)
  from C6_release_failure_replaces_outcome [OF a b c1, where m = "ascii ''kill failed''"
      and req = demo_request] k1
  have 1: "fst (api_run_agent demo_cfg ?r1 demo_request)
      = Inl (SandboxException (ascii ''kill failed''))"
    by blast
  from C6_release_failure_replaces_outcome [OF a b c2, where mr = "ascii ''timed out''"
      and p = "ascii ''hi''" and t = 5 and v = False and req = demo_request] w2 r2 k2
  have 2: "fst (run_agent demo_env ?r2 (ascii ''hi'') 5 False)
        = Inl (SandboxException (ascii ''timed out''))
      \<and> fst (api_run_agent demo_cfg ?r2 demo_request)
        = Inr (failure (ascii ''timed out'') (Some (ascii ''sbx'')))"
    by blast
  from a b w1 k1 1 r2 k2 2 show ?thesis by blast
qed

text \<open>
  C6 as stated fails: the upload raises \<open>upload failed\<close>, the \<open>kill\<close> call raises
  \<open>kill failed\<close>, and \<open>run_agent\<close> raises the second.
\<close>

theorem C6_primary_error_masked_counterexample:
  "fst (try_block
        (demo_remote (Raises (ascii ''upload failed'')) (Raises []) (Raises (ascii ''kill failed'')))
        (ascii ''sbx'') (agent_code (ascii ''hi'')) 5 False)
     = Inl (SandboxException (ascii ''upload failed''))
   \<and> fst (run_agent demo_env
        (demo_remote (Raises (ascii ''upload failed'')) (Raises []) (Raises (ascii ''kill failed'')))
        (ascii ''hi'') 5 False)
     = Inl (SandboxException (ascii ''kill failed''))
   \<and> ascii ''kill failed'' \<noteq> ascii ''upload failed''"
proof -
  have a: "configured demo_env" by (simp add: configured_def demo_env_def truthy_def ascii_def)
  show ?thesis
    by (simp add: fst_run_agent_created [OF a] demo_remote_def try_block_def ascii_def)
qed

subsection \<open>C7: the timeout of provisioning and of execution\<close>

text \<open>
  C7, as amended. In every run of \<open>run_agent\<close> and of the API handler, every timeout
  passed to \<open>create\<close> and every timeout passed to \<open>commands.run\<close> is the timeout of
  the task, and a run that gets as far as the execution passes it to both calls. (The
  synchronous example is not covered: it passes two different literals.)
\<close>

theorem C7_same_timeout:
  "(create_timeouts (snd (run_agent env rem p t v)) = []
      \<or> create_timeouts (snd (run_agent env rem p t v)) = [t])
   \<and> (run_timeouts (snd (run_agent env rem p t v)) = []
      \<or> run_timeouts (snd (run_agent env rem p t v)) = [t])
   \<and> (create_timeouts (snd (api_run_agent cfg rem req)) = []
      \<or> create_timeouts (snd (api_run_agent cfg rem req)) = [req_timeout req])
   \<and> (run_timeouts (snd (api_run_agent cfg rem req)) = []
      \<or> run_timeouts (snd (api_run_agent cfg rem req)) = [req_timeout req])
   \<and> (configured env \<and> server_configured cfg \<and> create_outcome rem = Returns sandbox
        \<and> write_outcome rem = Returns ()
      \<longrightarrow> create_timeouts (snd (run_agent env rem p t v)) = [t]
        \<and> run_timeouts (snd (run_agent env rem p t v)) = [t]
        \<and> create_timeouts (snd (api_run_agent cfg rem req)) = [req_timeout req]
        \<and> run_timeouts (snd (api_run_agent cfg rem req)) = [req_timeout req])"
proof -
  have "create_timeouts (snd (run_agent env rem p t v)) = [t]
        \<and> run_timeouts (snd (run_agent env rem p t v)) = [t]
        \<and> create_timeouts (snd (api_run_agent cfg rem req)) = [req_timeout req]
        \<and> run_timeouts (snd (api_run_agent cfg rem req)) = [req_timeout req]"
    if "configured env" "server_configured cfg" "create_outcome rem = Returns sandbox"
      "write_outcome rem = Returns ()"
    using that
    by (simp add: run_agent_def try_block_def finally_block_def api_run_agent_def
        api_try_block_def configured_def server_configured_def Let_def split: outcome.splits)
  with run_agent_timeouts [of env rem p t v] api_timeouts [of cfg rem req]
  show ?thesis by blast
qed

text \<open>A run with timeout 5 whose execution raises.\<close>

theorem C7_same_timeout_witness:
  "configured demo_env \<and> server_configured demo_cfg
   \<and> create_outcome (demo_remote (Returns ()) (Raises (ascii ''timed out'')) (Returns ()))
       = Returns (ascii ''sbx'')
   \<and> write_outcome (demo_remote (Returns ()) (Raises (ascii ''timed out'')) (Returns ()))
       = Returns ()
   \<and> create_timeouts (snd (run_agent demo_env
        (demo_remote (Returns ()) (Raises (ascii ''timed out'')) (Returns ()))
        (ascii ''hi'') 5 True)) = [5]
   \<and> run_timeouts (snd (run_agent demo_env
        (demo_remote (Returns ()) (Raises (ascii ''timed out'')) (Returns ()))
        (ascii ''hi'') 5 True)) = [5]"
proof -
  let ?rem = "demo_remote (Returns ()) (Raises (ascii ''timed out'')) (Returns ())"
  have a: "configured demo_env" by (simp add: configured_def demo_env_def truthy_def ascii_def)
  have b: "server_configured demo_cfg"
    by (simp add: server_configured_def demo_cfg_def truthy_def ascii_def)
  have c: "create_outcome ?rem = Returns (ascii ''sbx'')" by (simp add: demo_remote_def)
  have d: "write_outcome ?rem = Returns ()" by (simp add: demo_remote_def)
  from C7_same_timeout [of demo_env ?rem "ascii ''hi''" 5 True demo_cfg demo_request "ascii ''sbx''"]
    a b c d
  have "create_timeouts (snd (run_agent demo_env ?rem (ascii ''hi'') 5 True)) = [5]
      \<and> run_timeouts (snd (run_agent demo_env ?rem (ascii ''hi'') 5 True)) = [5]"
    by blast
  with a b c d show ?thesis by blast
qed

text \<open>
  C7 as stated fails on \<open>examples/basic_sync.py\<close>: \<open>run_agent_in_sandbox\<close> creates the
  sandbox with timeout 120 and runs the program with timeout 60.
\<close>

theorem C7_basic_sync_counterexample:
  "create_timeouts (snd (run_agent_in_sandbox (Some (ascii ''tmpl'')) (Some (ascii ''tok''))
      (demo_remote (Returns ())
         (Returns \<lparr>exit_code = 0, stdout = ascii ''4'', stderr = []\<rparr>) (Returns ())))) = [120]
   \<and> run_timeouts (snd (run_agent_in_sandbox (Some (ascii ''tmpl'')) (Some (ascii ''tok''))
      (demo_remote (Returns ())
         (Returns \<lparr>exit_code = 0, stdout = ascii ''4'', stderr = []\<rparr>) (Returns ())))) = [60]"
  by (simp add: run_agent_in_sandbox_def sync_try_block_def demo_remote_def Let_def)

subsection \<open>C9: no message with a result\<close>

text \<open>
  C9, as amended. When no message of the agent has a \<open>result\<close> attribute the generated
  program prints nothing; in every run in which that program exits with status 0 and the
  \<open>kill\<close> call returns, \<open>run_agent\<close> returns the empty string and the API handler
  answers with success and an empty result: no error is raised.
\<close>

theorem C9_no_result_message:
  assumes "configured env" and "server_configured cfg"
    and "create_outcome rem = Returns sandbox"
    and "write_outcome rem = Returns ()" and "run_outcome rem = Returns res"
    and "exit_code res = 0" and "stdout res = agent_main msgs"
    and "\<forall>m \<in> set msgs. m = Other"
    and "kill_outcome rem = Returns ()"
  shows "agent_main msgs = []
       \<and> fst (run_agent env rem p t v) = Inr []
       \<and> fst (api_run_agent cfg rem req)
           = Inr \<lparr>resp_success = True, resp_result = Some [], resp_error = None,
                   resp_sandbox_id = Some sandbox\<rparr>"
proof -
  have 0: "agent_main msgs = []" using assms(8) by (rule agent_main_no_result)
  then have s: "py_strip (stdout res) = []" using assms(7) by (simp add: py_strip_Nil)
  have 1: "fst (run_agent env rem p t v) = Inr []"
    using assms s by (simp add: fst_run_agent_created fst_try_block_ran)
  have 2: "fst (api_run_agent cfg rem req)
           = Inr \<lparr>resp_success = True, resp_result = Some [], resp_error = None,
                   resp_sandbox_id = Some sandbox\<rparr>"
    using assms s by (simp add: fst_api_created api_try_block_def Let_def)
  from 0 1 2 show ?thesis by simp
qed

text \<open>Two messages without a result; the program writes only to standard error.\<close>

theorem C9_no_result_message_witness:
  "configured demo_env \<and> server_configured demo_cfg
   \<and> set [Other, Other] = {Other}
   \<and> exit_code \<lparr>exit_code = 0, stdout = agent_main [Other, Other], stderr = ascii ''warn''\<rparr> = 0
   \<and> fst (run_agent demo_env
        (demo_remote (Returns ())
           (Returns \<lparr>exit_code = 0, stdout = agent_main [Other, Other], stderr = ascii ''warn''\<rparr>)
           (Returns ()))
        (ascii ''hi'') 5 False) = Inr []"
proof -
  let ?res = "\<lparr>exit_code = 0, stdout = agent_main [Other, Other], stderr = ascii ''warn''\<rparr>"
  let ?rem = "demo_remote (Returns ()) (Returns ?res) (Returns ())"
  have a: "configured demo_env" by (simp add: configured_def demo_env_def truthy_def ascii_def)
  have b: "server_configured demo_cfg"
    by (simp add: server_configured_def demo_cfg_def truthy_def ascii_def)
  have c: "create_outcome ?rem = Returns (ascii ''sbx'')" by (simp add: demo_remote_def)
  have d: "write_outcome ?rem = Returns ()" by (simp add: demo_remote_def)
  have e: "run_outcome ?rem = Returns ?res" by (simp add: demo_remote_def)
  have f: "exit_code ?res = 0" by simp
  have g: "stdout ?res = agent_main [Other, Other]" by simp
  have h: "\<forall>m \<in> set [Other, Other]. m = Other" by simp
  have i: "kill_outcome ?rem = Returns ()" by (simp add: demo_remote_def)
  from C9_no_result_message [OF a b c d e f g h i, of "ascii ''hi''" 5 False demo_request]
  have "fst (run_agent demo_env ?rem (ascii ''hi'') 5 False) = Inr []" by blast
  moreover have "set [Other, Other] = {Other}" by simp
  ultimately show ?thesis using a b f by blast
qed

text \<open>
  C9 as stated fails when the \<open>kill\<close> call raises: the run with an empty standard output
  and exit status 0 then fails with the exception of \<open>kill\<close>.
\<close>

theorem C9_release_failure_counterexample:
  "agent_main [Other] = []
   \<and> fst (run_agent demo_env
        (demo_remote (Returns ())
           (Returns \<lparr>exit_code = 0, stdout = agent_main [Other], stderr = []\<rparr>)
           (Raises (ascii ''sandbox not found'')))
        (ascii ''hi'') 5 False)
      = Inl (SandboxException (ascii ''sandbox not found''))"
proof -
  have a: "configured demo_env" by (simp add: configured_def demo_env_def truthy_def ascii_def)
  show ?thesis
    by (simp add: fst_run_agent_created [OF a] demo_remote_def agent_main_def truthy_def)
qed

subsection \<open>C10: the credential tokens and the program text\<close>

text \<open>
  C10. Take two runs of \<open>run_agent\<close>, or of the API handler, with the same task fields
  and template identifier and with any two credential tokens that pass the checks.
  Whatever the provider does in either run, the only program text uploaded is the one
  generated from the task fields. Against the same provider behaviour the two runs make
  the same calls with the same arguments and end the same way, but for the environment
  variables handed to \<open>create\<close>, and those carry the token.
\<close>

theorem C10_tokens_only_in_environment:
  assumes "configured env1" and "configured env2"
    and "env1 ''E2B_TEMPLATE_ID'' = env2 ''E2B_TEMPLATE_ID''"
    and "server_configured cfg1" and "server_configured cfg2"
    and "TEMPLATE_ID cfg1 = TEMPLATE_ID cfg2"
  shows "(written (snd (run_agent env1 rem1 p t v)) = []
            \<or> written (snd (run_agent env1 rem1 p t v)) = [agent_code p])
       \<and> (written (snd (run_agent env2 rem2 p t v)) = []
            \<or> written (snd (run_agent env2 rem2 p t v)) = [agent_code p])
       \<and> map redact (snd (run_agent env1 rem p t v)) = map redact (snd (run_agent env2 rem p t v))
       \<and> fst (run_agent env1 rem p t v) = fst (run_agent env2 rem p t v)
       \<and> filter is_create (snd (run_agent env1 rem p t v))
           = [Create (env1 ''E2B_TEMPLATE_ID'') t
                [(''CLAUDE_CODE_OAUTH_TOKEN'', env1 ''CLAUDE_CODE_OAUTH_TOKEN'')]]
       \<and> (written (snd (api_run_agent cfg1 rem1 req)) = []
            \<or> written (snd (api_run_agent cfg1 rem1 req)) = [api_agent_code req])
       \<and> (written (snd (api_run_agent cfg2 rem2 req)) = []
            \<or> written (snd (api_run_agent cfg2 rem2 req)) = [api_agent_code req])
       \<and> map redact (snd (api_run_agent cfg1 rem req))
           = map redact (snd (api_run_agent cfg2 rem req))
       \<and> fst (api_run_agent cfg1 rem req) = fst (api_run_agent cfg2 rem req)"
  using run_agent_written [of env1 rem1 p t v] run_agent_written [of env2 rem2 p t v]
    run_agent_redacted [OF assms(1,2,3), of rem p t v]
    run_agent_create_call [OF assms(1), of rem p t v]
    api_written [of cfg1 rem1 req] api_written [of cfg2 rem2 req]
    api_redacted [OF assms(4,5,6), of rem req]
  by blast

text \<open>The tokens \<open>tok\<close> and \<open>other\<close> against a provider on which everything succeeds.\<close>

theorem C10_tokens_only_in_environment_witness:
  "configured demo_env \<and> configured (demo_env(''CLAUDE_CODE_OAUTH_TOKEN'' \<mapsto> ascii ''other''))
   \<and> demo_env ''CLAUDE_CODE_OAUTH_TOKEN''
       \<noteq> (demo_env(''CLAUDE_CODE_OAUTH_TOKEN'' \<mapsto> ascii ''other'')) ''CLAUDE_CODE_OAUTH_TOKEN''
   \<and> server_configured demo_cfg
   \<and> server_configured (demo_cfg\<lparr>OAUTH_TOKEN := Some (ascii ''other'')\<rparr>)
   \<and> map redact (snd (run_agent demo_env
         (demo_remote (Returns ())
            (Returns \<lparr>exit_code = 0, stdout = ascii ''4'', stderr = []\<rparr>) (Returns ()))
         (ascii ''hi'') 5 True))
     = map redact (snd (run_agent (demo_env(''CLAUDE_CODE_OAUTH_TOKEN'' \<mapsto> ascii ''other''))
         (demo_remote (Returns ())
            (Returns \<lparr>exit_code = 0, stdout = ascii ''4'', stderr = []\<rparr>) (Returns ()))
         (ascii ''hi'') 5 True))"
proof -
  let ?env2 = "demo_env(''CLAUDE_CODE_OAUTH_TOKEN'' \<mapsto> ascii ''other'')"
  let ?cfg2 = "demo_cfg\<lparr>OAUTH_TOKEN := Some (ascii ''other'')\<rparr>"
  let ?rem = "demo_remote (Returns ())
            (Returns \<lparr>exit_code = 0, stdout = ascii ''4'', stderr = []\<rparr>) (Returns ())"
  have a: "configured demo_env" by (simp add: configured_def demo_env_def truthy_def ascii_def)
  have b: "configured ?env2" by (simp add: configured_def demo_env_def truthy_def ascii_def)
  have c: "demo_env ''E2B_TEMPLATE_ID'' = ?env2 ''E2B_TEMPLATE_ID''" by simp
  have d: "server_configured demo_cfg"
    by (simp add: server_configured_def demo_cfg_def truthy_def ascii_def)
  have e: "server_configured ?cfg2"
    by (simp add: server_configured_def demo_cfg_def truthy_def ascii_def)
  have f: "TEMPLATE_ID demo_cfg = TEMPLATE_ID ?cfg2" by simp
  have g: "demo_env ''CLAUDE_CODE_OAUTH_TOKEN'' \<noteq> ?env2 ''CLAUDE_CODE_OAUTH_TOKEN''"
    by (simp add: demo_env_def ascii_def)
  from C10_tokens_only_in_environment [OF a b c d e f, of ?rem "ascii ''hi''" 5 True ?rem ?rem
      demo_request]
  have "map redact (snd (run_agent demo_env ?rem (ascii ''hi'') 5 True))
      = map redact (snd (run_agent ?env2 ?rem (ascii ''hi'') 5 True))"
    by blast
  with a b g d e show ?thesis by blast
qed

end
